theory Spec2Isabelle
  imports Complex_Main
begin

section \<open>JavaScript strings and values\<close>

text \<open>
  A JavaScript string is modelled as a \<open>string\<close>: one \<open>char\<close> stands for one UTF-16 code
  unit, and only the code units below 256 are representable, so \<open>length\<close> is the
  string's \<open>.length\<close>. The built-ins below are the ECMAScript ones restricted to that
  range. \<open>toLowerCase\<close> is only ever compared with names of ASCII letters, and is given
  on the ASCII letters: no other character below 256 becomes an ASCII letter in lower
  case. \<open>toUpperCase\<close> builds a name that is looked up, and is given on the whole range:
  the letters \<open>a\<close> to \<open>z\<close> and \<open>0xE0\<close> to \<open>0xFE\<close> (but not the division sign
  \<open>0xF7\<close>) move down by \<open>0x20\<close>, the sharp s \<open>0xDF\<close> becomes \<open>SS\<close>, and the micro
  sign \<open>0xB5\<close> and \<open>0xFF\<close> have upper-case forms (\<open>U+039C\<close>, \<open>U+0178\<close>) outside
  the range, for which the result is \<open>None\<close>.
\<close>

definition toLowerCaseChar :: "char \<Rightarrow> char" where
  "toLowerCaseChar c =
     (case map_of (zip ''ABCDEFGHIJKLMNOPQRSTUVWXYZ'' ''abcdefghijklmnopqrstuvwxyz'') c of
        Some d \<Rightarrow> d | None \<Rightarrow> c)"

definition lowerLetters :: string where
  "lowerLetters =
     ''abcdefghijklmnopqrstuvwxyz'' @
     [CHR 0xE0, CHR 0xE1, CHR 0xE2, CHR 0xE3, CHR 0xE4, CHR 0xE5, CHR 0xE6, CHR 0xE7,
      CHR 0xE8, CHR 0xE9, CHR 0xEA, CHR 0xEB, CHR 0xEC, CHR 0xED, CHR 0xEE, CHR 0xEF,
      CHR 0xF0, CHR 0xF1, CHR 0xF2, CHR 0xF3, CHR 0xF4, CHR 0xF5, CHR 0xF6,
      CHR 0xF8, CHR 0xF9, CHR 0xFA, CHR 0xFB, CHR 0xFC, CHR 0xFD, CHR 0xFE]"

definition upperLetters :: string where
  "upperLetters =
     ''ABCDEFGHIJKLMNOPQRSTUVWXYZ'' @
     [CHR 0xC0, CHR 0xC1, CHR 0xC2, CHR 0xC3, CHR 0xC4, CHR 0xC5, CHR 0xC6, CHR 0xC7,
      CHR 0xC8, CHR 0xC9, CHR 0xCA, CHR 0xCB, CHR 0xCC, CHR 0xCD, CHR 0xCE, CHR 0xCF,
      CHR 0xD0, CHR 0xD1, CHR 0xD2, CHR 0xD3, CHR 0xD4, CHR 0xD5, CHR 0xD6,
      CHR 0xD8, CHR 0xD9, CHR 0xDA, CHR 0xDB, CHR 0xDC, CHR 0xDD, CHR 0xDE]"

definition toUpperCaseChar :: "char \<Rightarrow> string option" where
  "toUpperCaseChar c =
     (if c = CHR 0xB5 \<or> c = CHR 0xFF then None
      else if c = CHR 0xDF then Some ''SS''
      else case map_of (zip lowerLetters upperLetters) c of
             Some d \<Rightarrow> Some [d]
           | None \<Rightarrow> Some [c])"

definition toLowerCase :: "string \<Rightarrow> string" where
  "toLowerCase s = map toLowerCaseChar s"

fun toUpperCase :: "string \<Rightarrow> string option" where
  "toUpperCase [] = Some []"
| "toUpperCase (c # cs) =
     (case toUpperCaseChar c of
        None \<Rightarrow> None
      | Some u \<Rightarrow> map_option ((@) u) (toUpperCase cs))"

text \<open>\<open>String.prototype.trim\<close>: white space and line terminators are removed at both ends.\<close>

definition isWhiteSpace :: "char \<Rightarrow> bool" where
  "isWhiteSpace c \<longleftrightarrow>
     c \<in> set [CHR 0x09, CHR 0x0A, CHR 0x0B, CHR 0x0C, CHR 0x0D, CHR 0x20, CHR 0xA0]"

definition trim :: "string \<Rightarrow> string" where
  "trim s = rev (dropWhile isWhiteSpace (rev (dropWhile isWhiteSpace s)))"

text \<open>
  The regular-expression atom \<open>.\<close> matches any character except a line terminator; of the
  four line terminators, line feed and carriage return are below 256.
\<close>

definition isLineTerminator :: "char \<Rightarrow> bool" where
  "isLineTerminator c \<longleftrightarrow> c = CHR 0x0A \<or> c = CHR 0x0D"

text \<open>
  Truthiness of a value that is either absent (\<open>undefined\<close>) or a string, and the operator
  \<open>a || b\<close> on such values: the left operand when it is truthy, the right one otherwise.
\<close>

definition truthy :: "string option \<Rightarrow> bool" where
  "truthy v = (case v of None \<Rightarrow> False | Some s \<Rightarrow> s \<noteq> [])"

definition js_or :: "string option \<Rightarrow> string option \<Rightarrow> string option" where
  "js_or a b = (if truthy a then a else b)"

definition or_empty :: "string option \<Rightarrow> string" where
  \<comment> \<open>\<open>v || ''\<close>\<close>
  "or_empty v = (case js_or v (Some []) of Some s \<Rightarrow> s | None \<Rightarrow> [])"

text \<open>
  What reading a property of a plain object such as the key map gives. The key map is
  parsed from JSON with string values, and like every plain object it inherits the
  properties of \<open>Object.prototype\<close>: reading a name that is no entry of the map but one of
  those gives a function (for \<open>__proto__\<close> the prototype object), which is no string and
  is truthy. \<open>Inherited n\<close> stands for that value.
\<close>

datatype Value = Str string | Inherited string

definition objectPrototypeNames :: "string list" where
  "objectPrototypeNames =
     [''constructor'', ''hasOwnProperty'', ''isPrototypeOf'', ''propertyIsEnumerable'',
      ''toLocaleString'', ''toString'', ''valueOf'', ''__proto__'', ''__defineGetter__'',
      ''__defineSetter__'', ''__lookupGetter__'', ''__lookupSetter__'']"

definition lookupProperty :: "(string \<rightharpoonup> string) \<Rightarrow> string \<Rightarrow> Value option" where
  \<comment> \<open>\<open>obj?.[name]\<close> on a plain object with the given entries\<close>
  "lookupProperty obj name =
     (case obj name of
        Some s \<Rightarrow> Some (Str s)
      | None \<Rightarrow> if name \<in> set objectPrototypeNames then Some (Inherited name) else None)"

definition lookupName :: "(string \<rightharpoonup> string) \<Rightarrow> string option \<Rightarrow> Value option" where
  \<comment> \<open>an environment's entry under a name ending in \<open>_API_KEY\<close>, which no inherited
      property does; a name outside the represented range is no entry of the map\<close>
  "lookupName environment name =
     (case name of None \<Rightarrow> None | Some n \<Rightarrow> map_option Str (environment n))"

fun isTruthy :: "Value \<Rightarrow> bool" where
  "isTruthy (Str s) = (s \<noteq> [])"
| "isTruthy (Inherited n) = True"

definition value_or :: "Value option \<Rightarrow> Value option \<Rightarrow> Value option" where
  \<comment> \<open>\<open>a || b\<close>\<close>
  "value_or a b = (case a of None \<Rightarrow> b | Some v \<Rightarrow> if isTruthy v then a else b)"

definition value_or_empty :: "Value option \<Rightarrow> Value" where
  \<comment> \<open>\<open>v || ''\<close>\<close>
  "value_or_empty v = (case value_or v (Some (Str [])) of Some x \<Rightarrow> x | None \<Rightarrow> Str [])"

definition or_zero :: "int option \<Rightarrow> int" where
  \<comment> \<open>\<open>n || 0\<close> for an optional number\<close>
  "or_zero v = (case v of None \<Rightarrow> 0 | Some n \<Rightarrow> if n = 0 then 0 else n)"

fun join_lines :: "string list \<Rightarrow> string" where
  "join_lines [] = []"
| "join_lines [l] = l"
| "join_lines (l # ls) = l @ CHR 0x0A # join_lines ls"

section \<open>Messages\<close>

text \<open>
  A message's \<open>content\<close> is a plain string or an array of parts \<open>{type, text?}\<close>;
  \<open>role\<close> is compared with the literal \<open>'user'\<close>, so it stays a string.
\<close>

record ContentItem =
  item_type :: string
  item_text :: "string option"

datatype Content = Text string | Parts "ContentItem list"

record Message =
  role :: string
  content :: Content
  msg_id :: "string option"

type_synonym Messages = "Message list"

definition lastUserMessage :: "Messages \<Rightarrow> Message option" where
  \<comment> \<open>\<open>[...messages].reverse().find(msg => msg.role === 'user')\<close>\<close>
  "lastUserMessage messages = find (\<lambda>msg. role msg = ''user'') (rev messages)"

definition contentText :: "Content \<Rightarrow> string" where
  \<comment> \<open>the string itself, or the text of the first part of type \<open>'text'\<close>, or \<open>''\<close>\<close>
  "contentText c =
     (case c of
        Text s \<Rightarrow> s
      | Parts contentArray \<Rightarrow>
          (case find (\<lambda>c. item_type c = ''text'') contentArray of
             None \<Rightarrow> []
           | Some textItem \<Rightarrow> or_empty (item_text textItem)))"

section \<open>Model and provider tags\<close>

text \<open>
  \<open>content.match(/\[Model: (.*?)\]/)\<close>: the leftmost position where the tag's opening text
  is followed, on the same line, by a closing bracket; the group is the text up to the
  first such bracket.
\<close>

fun strip_prefix :: "string \<Rightarrow> string \<Rightarrow> string option" where
  "strip_prefix [] s = Some s"
| "strip_prefix (p # ps) [] = None"
| "strip_prefix (p # ps) (c # cs) = (if p = c then strip_prefix ps cs else None)"

fun str_includes :: "string \<Rightarrow> string \<Rightarrow> bool" where
  \<comment> \<open>\<open>s.includes(part)\<close>: \<open>part\<close> occurs somewhere in \<open>s\<close>\<close>
  "str_includes [] part = (strip_prefix part [] \<noteq> None)"
| "str_includes (c # cs) part = (strip_prefix part (c # cs) \<noteq> None \<or> str_includes cs part)"

fun lazy_group :: "string \<Rightarrow> string option" where
  \<comment> \<open>\<open>(.*?)\]\<close> at the current position\<close>
  "lazy_group [] = None"
| "lazy_group (c # cs) =
     (if c = CHR '']'' then Some []
      else if isLineTerminator c then None
      else map_option ((#) c) (lazy_group cs))"

definition match_here :: "string \<Rightarrow> string \<Rightarrow> string option" where
  "match_here opening s =
     (case strip_prefix opening s of None \<Rightarrow> None | Some rest \<Rightarrow> lazy_group rest)"

fun match_tag :: "string \<Rightarrow> string \<Rightarrow> string option" where
  "match_tag opening [] = match_here opening []"
| "match_tag opening (c # cs) =
     (case match_here opening (c # cs) of
        Some g \<Rightarrow> Some g
      | None \<Rightarrow> match_tag opening cs)"

record ModelInfo =
  model :: string
  providerName :: string

definition extractModelInfo :: "Message \<Rightarrow> ModelInfo" where
  \<comment> \<open>langchain-agents/types.ts\<close>
  "extractModelInfo message =
     (let content = contentText (content message);
          modelMatch = match_tag ''[Model: '' content;
          providerMatch = match_tag ''[Provider: '' content
      in \<lparr>model = (case modelMatch of Some g \<Rightarrow> g | None \<Rightarrow> ''gpt-4o''),
          providerName = (case providerMatch of Some g \<Rightarrow> g | None \<Rightarrow> ''OpenAI'')\<rparr>)"

definition extractModelInfo_enhancer :: "Message \<Rightarrow> ModelInfo" where
  \<comment> \<open>the helper of the same name local to agents/prompt-enhancer.ts\<close>
  "extractModelInfo_enhancer message =
     (let content = contentText (content message);
          modelMatch = match_tag ''[Model: '' content;
          providerMatch = match_tag ''[Provider: '' content
      in \<lparr>model = (case modelMatch of Some g \<Rightarrow> g | None \<Rightarrow> ''gpt-4''),
          providerName = (case providerMatch of Some g \<Rightarrow> g | None \<Rightarrow> ''openai'')\<rparr>)"

section \<open>Progress annotations and the output sink\<close>

datatype Status = InProgress | Complete | Error

record ProgressAnnotation =
  label :: string
  status :: Status
  order :: int
  message :: string

definition createProgressAnnotation ::
    "string \<Rightarrow> string \<Rightarrow> Status \<Rightarrow> int \<Rightarrow> ProgressAnnotation" where
  \<comment> \<open>agents/types.ts\<close>
  "createProgressAnnotation lbl msg st ord =
     (let safeStatus = (if st = Error then Complete else st)
      in \<lparr>label = lbl, status = safeStatus, order = ord, message = msg\<rparr>)"

definition createProgressAnnotation_langchain ::
    "string \<Rightarrow> string \<Rightarrow> Status \<Rightarrow> int \<Rightarrow> ProgressAnnotation" where
  \<comment> \<open>langchain-agents/utils.ts\<close>
  "createProgressAnnotation_langchain lbl msg st ord =
     (let safeStatus = (if st = Error then Complete else st)
      in \<lparr>label = lbl, status = safeStatus, order = ord, message = msg\<rparr>)"

text \<open>What \<open>dataStream.writeData\<close> receives: a progress annotation or a prompt comparison.\<close>

datatype StreamData =
    Progress ProgressAnnotation
  | PromptComparison (original: string) (enhanced: string)

section \<open>Agent contexts and results\<close>

typedecl IProviderSetting
typedecl StreamingOptions

datatype Dirent = File string | Folder

type_synonym FileMap = "(string \<times> Dirent) list"

text \<open>
  The context's \<open>dataStream\<close> is shared by reference; it is the \<open>World\<close> below, which every
  operation takes and returns.
\<close>

record AgentContext =
  env :: "string \<rightharpoonup> string"
  apiKeys :: "string \<rightharpoonup> string"
  providerSettings :: "string \<rightharpoonup> IProviderSetting"
  files :: "FileMap option"
  promptId :: "string option"
  contextOptimization :: "bool option"
  progressCounter :: int

record Usage =
  completionTokens :: int
  promptTokens :: int
  totalTokens :: int

record AgentResult =
  result_output :: string
  usage :: "Usage option"
  result_progressCounter :: int

text \<open>
  The errors an agent raises itself, and \<open>External\<close> for an error that a collaborator
  raised (given by its message) and that the agent lets through unchanged.
\<close>

type_synonym ExternalError = string

datatype Err =
    NoUserMessageToEnhance
  | NoUserMessageForCodeGeneration
  | NoApiKeyForProvider string
  | External ExternalError

section \<open>Model clients (langchain-agents/utils.ts)\<close>

record ModelFields =
  field_apiKey :: Value
  field_modelName :: string
  field_temperature :: rat

datatype ChatModel =
    ChatAnthropic ModelFields
  | ChatOpenAI ModelFields "string option"

definition createLangChainModel ::
    "(string \<rightharpoonup> string) \<Rightarrow> string \<Rightarrow> string \<Rightarrow> Value \<Rightarrow> rat \<Rightarrow> ChatModel" where
  \<comment> \<open>the first argument is \<open>process.env\<close>; the last of \<open>ChatOpenAI\<close> is the base URL; the
      key is whatever \<open>getApiKey\<close> returned\<close>
  "createLangChainModel process_env provider mdl apiKey temperature =
     (let p = toLowerCase provider in
      if p = ''anthropic'' then
        ChatAnthropic \<lparr>field_apiKey = apiKey, field_modelName = mdl,
                       field_temperature = temperature\<rparr>
      else if p = ''openai'' then
        ChatOpenAI \<lparr>field_apiKey = apiKey, field_modelName = mdl,
                    field_temperature = temperature\<rparr> None
      else if p = ''groq'' then
        ChatOpenAI \<lparr>field_apiKey = apiKey, field_modelName = mdl,
                    field_temperature = temperature\<rparr>
                   (Some ''https://api.groq.com/openai/v1'')
      else if truthy (process_env ''ANTHROPIC_API_KEY'') then
        ChatAnthropic \<lparr>field_apiKey = Str (or_empty (process_env ''ANTHROPIC_API_KEY'')),
                       field_modelName = ''claude-3-sonnet-20240229'',
                       field_temperature = temperature\<rparr>
      else
        ChatOpenAI \<lparr>field_apiKey = apiKey, field_modelName = or_empty (js_or (Some mdl) (Some ''gpt-4o'')),
                    field_temperature = temperature\<rparr> None)"

definition getApiKey :: "(string \<rightharpoonup> string) \<Rightarrow> AgentContext \<Rightarrow> string \<Rightarrow> Value" where
  \<comment> \<open>the first argument is \<open>process.env\<close>\<close>
  "getApiKey process_env context provider =
     (let p = toLowerCase provider in
      if p = ''anthropic'' then
        value_or_empty
          (value_or (lookupProperty (apiKeys context) ''Anthropic'')
          (value_or (lookupName (env context) (Some ''ANTHROPIC_API_KEY''))
                    (lookupName process_env (Some ''ANTHROPIC_API_KEY''))))
      else if p = ''openai'' then
        value_or_empty
          (value_or (lookupProperty (apiKeys context) ''OpenAI'')
          (value_or (lookupName (env context) (Some ''OPENAI_API_KEY''))
                    (lookupName process_env (Some ''OPENAI_API_KEY''))))
      else if p = ''groq'' then
        value_or_empty
          (value_or (lookupProperty (apiKeys context) ''Groq'')
          (value_or (lookupName (env context) (Some ''GROQ_API_KEY''))
                    (lookupName process_env (Some ''GROQ_API_KEY''))))
      else
        (let envKeyName = map_option (\<lambda>u. u @ ''_API_KEY'') (toUpperCase provider) in
         value_or_empty
           (value_or (lookupProperty (apiKeys context) provider)
           (value_or (lookupName (env context) envKeyName)
                     (lookupName process_env envKeyName)))))"

subsection \<open>Prompt templates\<close>

text \<open>
  A template with the one placeholder \<open>{input}\<close> is the text before it and the text after
  it; \<open>format\<close> puts the input between them.
\<close>

datatype AgentRole = PROMPT_ENHANCER | CODE_GENERATOR

type_synonym PromptTemplate = "string \<times> string"

definition template_PROMPT_ENHANCER_before :: string where
  "template_PROMPT_ENHANCER_before =
     join_lines
      ['''',
       ''        You are a professional prompt engineer specializing in crafting precise, effective prompts.'',
       ''        Your task is to enhance prompts by making them more specific, actionable, and effective.'',
       '''',
       ''        I want you to improve the user prompt that is wrapped in `<original_prompt>` tags.'',
       '''',
       ''        For valid prompts:'',
       ''        - Make instructions explicit and unambiguous'',
       ''        - Add relevant context and constraints '',
       ''        - Remove redundant information'',
       ''        - Maintain the core intent'',
       ''        - Ensure the prompt is self-contained'',
       ''        - Use professional language'',
       '''',
       ''        For invalid or unclear prompts:'',
       ''        - Respond with clear, professional guidance'',
       ''        - Keep responses concise and actionable'',
       ''        - Maintain a helpful, constructive tone'',
       ''        - Focus on what the user should provide'',
       ''        - Use a standard template for consistency'',
       '''',
       ''        IMPORTANT: Your response must ONLY contain the enhanced prompt text.'',
       ''        Do not include any explanations, metadata, or wrapper tags.'',
       '''',
       ''        <original_prompt>'',
       ''          '']"

definition template_PROMPT_ENHANCER_after :: string where
  "template_PROMPT_ENHANCER_after =
     join_lines
      ['''',
       ''        </original_prompt>'',
       ''      '']"

definition template_CODE_GENERATOR_before :: string where
  "template_CODE_GENERATOR_before =
     join_lines
      ['''',
       ''        You are a senior software principal architect. Your task is to generate high-quality, clean, and efficient code based on the user's requirements.'',
       ''        '',
       ''        The user has provided the following prompt:'',
       '''',
       ''        '']"

definition template_CODE_GENERATOR_after :: string where
  "template_CODE_GENERATOR_after =
     join_lines
      ['''',
       '''',
       ''        Please generate code that:'',
       ''        - Is well-structured and maintainable'',
       ''        - Follows best practices and coding standards'',
       ''        - Includes helpful comments where necessary'',
       ''        - Is secure and handles edge cases'',
       ''        - Matches the user's requirements exactly'',
       ''        '',
       ''        Focus solely on generating the code and any necessary explanations related to the code, without additional comments about your process.'',
       ''      '']"

fun createPromptForAgent :: "AgentRole \<Rightarrow> PromptTemplate" where
  "createPromptForAgent PROMPT_ENHANCER =
     (template_PROMPT_ENHANCER_before, template_PROMPT_ENHANCER_after)"
| "createPromptForAgent CODE_GENERATOR =
     (template_CODE_GENERATOR_before, template_CODE_GENERATOR_after)"

definition format :: "PromptTemplate \<Rightarrow> string \<Rightarrow> string" where
  "format t input = fst t @ input @ snd t"

subsection \<open>Token estimates\<close>

definition ceil_quarter :: "nat \<Rightarrow> int" where
  \<comment> \<open>\<open>Math.ceil(n / 4)\<close> for a string length \<open>n\<close>\<close>
  "ceil_quarter n = \<lceil>(of_nat n :: rat) / 4\<rceil>"

section \<open>The world: output sink and model invocations\<close>

datatype BaseMessage = HumanMessage string | SystemMessage string | AIMessage string

text \<open>
  What \<open>streamText\<close> is called with and what it returns. The result's \<open>text\<close> is a plain
  value (a string, or \<open>None\<close> for \<open>undefined\<close>) or a promise that rejects or resolves to
  such a value; \<open>usage\<close> is absent, or rejects, or resolves to an object (or \<open>undefined\<close>)
  whose counters may be missing.
\<close>

record StreamTextArgs =
  arg_messages :: Messages
  arg_env :: "string \<rightharpoonup> string"
  arg_apiKeys :: "string \<rightharpoonup> string"
  arg_providerSettings :: "string \<rightharpoonup> IProviderSetting"
  arg_system :: string
  arg_streamingOptions :: "StreamingOptions option"

record RawUsage =
  raw_completionTokens :: "int option"
  raw_promptTokens :: "int option"
  raw_totalTokens :: "int option"

datatype TextField = PlainText "string option" | PromiseText "ExternalError + string option"

record StreamTextResult =
  field_text :: TextField
  field_usage :: "(ExternalError + RawUsage option) option"

datatype Invocation =
    Invoke ChatModel "BaseMessage list"
  | StreamText StreamTextArgs

record World =
  dataStream :: "StreamData list"
  invocations :: "Invocation list"

definition writeData :: "StreamData \<Rightarrow> World \<Rightarrow> World" where
  "writeData d w = w\<lparr>dataStream := dataStream w @ [d]\<rparr>"

definition invoked :: "Invocation \<Rightarrow> World \<Rightarrow> World" where
  "invoked i w = w\<lparr>invocations := invocations w @ [i]\<rparr>"

text \<open>
  The collaborators of the agents, taken as parameters: the process environment, the model
  clients' \<open>invoke\<close> (giving \<open>response.content.toString()\<close>), \<open>streamText\<close>,
  \<open>stripIndents\<close>, the context selection, the two identifier generators and
  \<open>JSON.stringify\<close> on an array content, none of which is defined in these sources, and
  the file-context serialiser \<open>createFilesContext\<close> of llm/utils.ts, which rests on the
  \<open>ignore\<close> package and a pattern table that are not. Each one that can throw returns a
  sum.
\<close>

record Collaborators =
  process_env :: "string \<rightharpoonup> string"
  invoke :: "ChatModel \<Rightarrow> BaseMessage list \<Rightarrow> ExternalError + string"
  streamText :: "StreamTextArgs \<Rightarrow> ExternalError + StreamTextResult"
  stripIndents :: "string \<Rightarrow> string"
  createFilesContext :: "FileMap \<Rightarrow> bool \<Rightarrow> ExternalError + string"
  selectContext ::
    "Messages \<Rightarrow> FileMap \<Rightarrow> (string \<rightharpoonup> string) \<Rightarrow> (string \<rightharpoonup> string) \<Rightarrow>
     (string \<rightharpoonup> IProviderSetting) \<Rightarrow> string option \<Rightarrow> bool option \<Rightarrow> string \<Rightarrow>
     ExternalError + string"
  randomUUID :: string
  generateId :: string
  JSON_stringify :: "ContentItem list \<Rightarrow> string"

section \<open>The LangChain agents (langchain-agents/)\<close>

definition estimatedUsage :: "nat \<Rightarrow> nat \<Rightarrow> Usage" where
  \<comment> \<open>from the length of what is sent and the length of the trimmed reply\<close>
  "estimatedUsage promptLength replyLength =
     \<lparr>completionTokens = ceil_quarter replyLength,
      promptTokens = ceil_quarter promptLength,
      totalTokens = ceil_quarter (promptLength + replyLength)\<rparr>"

definition LangChain_PromptEnhancerAgent_try ::
    "Collaborators \<Rightarrow> AgentContext \<Rightarrow> string \<Rightarrow> ModelInfo \<Rightarrow> int \<Rightarrow> World \<Rightarrow>
     (Err + AgentResult) \<times> World" where
  \<comment> \<open>the \<open>try\<close> block of \<open>execute\<close>\<close>
  "LangChain_PromptEnhancerAgent_try deps context messageContent modelInfo newProgressCounter w =
     (let apiKey = getApiKey (process_env deps) context (providerName modelInfo) in
      if \<not> isTruthy apiKey then (Inl (NoApiKeyForProvider (providerName modelInfo)), w)
      else
        (let llm = createLangChainModel (process_env deps) (providerName modelInfo)
                     (model modelInfo) apiKey 0.2;
             promptTemplate = createPromptForAgent PROMPT_ENHANCER;
             prompt = format promptTemplate messageContent;
             w1 = invoked (Invoke llm [HumanMessage prompt]) w
         in case invoke deps llm [HumanMessage prompt] of
              Inl e \<Rightarrow> (Inl (External e), w1)
            | Inr response \<Rightarrow>
                (let enhancedText = trim response
                 in (Inr \<lparr>result_output = enhancedText,
                          usage = Some (estimatedUsage (length prompt) (length enhancedText)),
                          result_progressCounter = newProgressCounter\<rparr>,
                     writeData (Progress (createProgressAnnotation_langchain ''enhance''
                        ''Prompt enhanced successfully'' Complete newProgressCounter)) w1))))"

definition LangChain_PromptEnhancerAgent_execute ::
    "Collaborators \<Rightarrow> Messages \<Rightarrow> AgentContext \<Rightarrow> World \<Rightarrow> (Err + AgentResult) \<times> World" where
  "LangChain_PromptEnhancerAgent_execute deps messages context w =
     (case lastUserMessage messages of
        None \<Rightarrow> (Inl NoUserMessageToEnhance, w)
      | Some lastUser \<Rightarrow>
          (let newProgressCounter = progressCounter context + 1;
               w1 = writeData (Progress (createProgressAnnotation_langchain ''enhance''
                      ''Enhancing prompt...'' InProgress newProgressCounter)) w;
               messageContent = contentText (content lastUser);
               modelInfo = (if length messages > 0 then extractModelInfo (last messages)
                            else \<lparr>model = ''gpt-4o'', providerName = ''OpenAI''\<rparr>)
           in case LangChain_PromptEnhancerAgent_try deps context messageContent modelInfo
                     newProgressCounter w1 of
                (Inr result, w2) \<Rightarrow> (Inr result, w2)
              | (Inl error, w2) \<Rightarrow>
                  (Inl error,
                   writeData (Progress (createProgressAnnotation_langchain ''enhance''
                     ''Failed to enhance prompt'' Error newProgressCounter)) w2)))"

definition codegen_systemMessage :: "string \<Rightarrow> string" where
  "codegen_systemMessage filesContext =
     ''You are a senior software principal architect. Generate high-quality code based on the user's requirements.''
     @ (if filesContext \<noteq> [] then
          [CHR 0x0A, CHR 0x0A] @ ''Here is the context from the existing files:'' @ [CHR 0x0A]
          @ filesContext
        else [])"

definition LangChain_filesContext :: "Collaborators \<Rightarrow> AgentContext \<Rightarrow> ExternalError + string" where
  \<comment> \<open>\<open>filesContext\<close>: empty unless a non-empty file map is present\<close>
  "LangChain_filesContext deps context =
     (case files context of
        None \<Rightarrow> Inr []
      | Some fm \<Rightarrow>
          if length (map fst fm) > 0 then createFilesContext deps fm True else Inr [])"

definition LangChain_CodeGeneratorAgent_try ::
    "Collaborators \<Rightarrow> Messages \<Rightarrow> AgentContext \<Rightarrow> int \<Rightarrow> World \<Rightarrow>
     (Err + AgentResult) \<times> World" where
  \<comment> \<open>the \<open>try\<close> block of \<open>execute\<close>\<close>
  "LangChain_CodeGeneratorAgent_try deps messages context newProgressCounter w =
     (case lastUserMessage messages of
        None \<Rightarrow> (Inl NoUserMessageForCodeGeneration, w)
      | Some lastUser \<Rightarrow>
          (let messageContent = contentText (content lastUser) in
           case LangChain_filesContext deps context of
             Inl e \<Rightarrow> (Inl (External e), w)
           | Inr filesContext \<Rightarrow>
               (let modelInfo = extractModelInfo lastUser;
                    apiKey = getApiKey (process_env deps) context (providerName modelInfo) in
                if \<not> isTruthy apiKey then
                  (Inl (NoApiKeyForProvider (providerName modelInfo)), w)
                else
                  (let llm = createLangChainModel (process_env deps) (providerName modelInfo)
                               (model modelInfo) apiKey 0;
                       systemMessage = codegen_systemMessage filesContext;
                       promptTemplate = createPromptForAgent CODE_GENERATOR;
                       prompt = format promptTemplate messageContent;
                       messagesToSend = [SystemMessage systemMessage, HumanMessage prompt];
                       w1 = invoked (Invoke llm messagesToSend) w
                   in case invoke deps llm messagesToSend of
                        Inl e \<Rightarrow> (Inl (External e), w1)
                      | Inr response \<Rightarrow>
                          (let generatedCode = trim response
                           in (Inr \<lparr>result_output = generatedCode,
                                    usage = Some (estimatedUsage
                                      (length systemMessage + length prompt)
                                      (length generatedCode)),
                                    result_progressCounter = newProgressCounter\<rparr>,
                               writeData (Progress (createProgressAnnotation_langchain
                                  ''code-gen'' ''Code generated successfully'' Complete
                                  newProgressCounter)) w1))))))"

definition LangChain_CodeGeneratorAgent_execute ::
    "Collaborators \<Rightarrow> Messages \<Rightarrow> AgentContext \<Rightarrow> World \<Rightarrow> (Err + AgentResult) \<times> World" where
  "LangChain_CodeGeneratorAgent_execute deps messages context w =
     (let newProgressCounter = progressCounter context + 1;
          w1 = writeData (Progress (createProgressAnnotation_langchain ''code-gen''
                 ''Generating code...'' InProgress newProgressCounter)) w
      in case LangChain_CodeGeneratorAgent_try deps messages context newProgressCounter w1 of
           (Inr result, w2) \<Rightarrow> (Inr result, w2)
         | (Inl error, w2) \<Rightarrow>
             (Inl error,
              writeData (Progress (createProgressAnnotation_langchain ''code-gen''
                ''Failed to generate code'' Error newProgressCounter)) w2))"

section \<open>The standard agents (agents/)\<close>

definition enhancer_instruction_before :: string where
  "enhancer_instruction_before =
     join_lines
      ['''',
       ''              You are a professional prompt engineer specializing in crafting precise, effective prompts.'',
       ''              Your task is to enhance prompts by making them more specific, actionable, and effective.'',
       '''',
       ''              I want you to improve the user prompt that is wrapped in `<original_prompt>` tags.'',
       '''',
       ''              For valid prompts:'',
       ''              - Make instructions explicit and unambiguous'',
       ''              - Add relevant context and constraints '',
       ''              - Remove redundant information'',
       ''              - Maintain the core intent'',
       ''              - Ensure the prompt is self-contained'',
       ''              - Use professional language'',
       '''',
       ''              For invalid or unclear prompts:'',
       ''              - Respond with clear, professional guidance'',
       ''              - Keep responses concise and actionable'',
       ''              - Maintain a helpful, constructive tone'',
       ''              - Focus on what the user should provide'',
       ''              - Use a standard template for consistency'',
       '''',
       ''              IMPORTANT: Your response must ONLY contain the enhanced prompt text.'',
       ''              Do not include any explanations, metadata, or wrapper tags.'',
       '''',
       ''              <original_prompt>'',
       ''                '']"

definition enhancer_instruction_after :: string where
  "enhancer_instruction_after =
     join_lines
      ['''',
       ''              </original_prompt>'',
       ''              '']"

definition enhancer_system :: string where
  "enhancer_system = ''You are a senior software principal architect, you should help the user analyse the user query and enrich it with the necessary context and constraints to make it more specific, actionable, and effective. You should also ensure that the prompt is self-contained and uses professional language. Your response should ONLY contain the enhanced prompt text. Do not include any explanations, metadata, or wrapper tags.''"

definition codegen_system :: string where
  "codegen_system = ''You are a senior software principal architect. Generate high-quality, accurate, and optimized code based on the user's enhanced prompt. Consider the context provided from project files when available. Your primary goal is to produce code that is functional, maintainable, and follows best practices.''"

definition resolveText :: "TextField \<Rightarrow> ExternalError + string" where
  \<comment> \<open>awaiting \<open>result.text\<close> (or \<open>result.text || ''\<close> when it is no promise), then
      keeping a string and turning anything else into \<open>String(v || '')\<close>\<close>
  "resolveText t =
     (case t of
        PlainText v \<Rightarrow> Inr (or_empty v)
      | PromiseText (Inl e) \<Rightarrow> Inl e
      | PromiseText (Inr v) \<Rightarrow> Inr (case v of Some s \<Rightarrow> s | None \<Rightarrow> []))"

definition resolveUsage ::
    "(ExternalError + RawUsage option) option \<Rightarrow> ExternalError + Usage option" where
  \<comment> \<open>\<open>resolvedUsage\<close> and the \<open>usage\<close> field built from it\<close>
  "resolveUsage u =
     (case u of
        None \<Rightarrow> Inr None
      | Some (Inl e) \<Rightarrow> Inl e
      | Some (Inr None) \<Rightarrow> Inr None
      | Some (Inr (Some resolvedUsage)) \<Rightarrow>
          Inr (Some \<lparr>completionTokens = or_zero (raw_completionTokens resolvedUsage),
                     promptTokens = or_zero (raw_promptTokens resolvedUsage),
                     totalTokens = or_zero (raw_totalTokens resolvedUsage)\<rparr>))"

definition finishStreamText ::
    "Collaborators \<Rightarrow> StreamTextArgs \<Rightarrow> string \<Rightarrow> string \<Rightarrow> int \<Rightarrow> World \<Rightarrow>
     (Err + AgentResult) \<times> World" where
  \<comment> \<open>the call of \<open>streamText\<close> and what both standard agents do with its result\<close>
  "finishStreamText deps args lbl doneMessage newProgressCounter w =
     (let w1 = invoked (StreamText args) w
      in case streamText deps args of
           Inl e \<Rightarrow> (Inl (External e), w1)
         | Inr result \<Rightarrow>
             (case resolveText (field_text result) of
                Inl e \<Rightarrow> (Inl (External e), w1)
              | Inr finalText \<Rightarrow>
                  (case resolveUsage (field_usage result) of
                     Inl e \<Rightarrow> (Inl (External e), w1)
                   | Inr resolved \<Rightarrow>
                       (Inr \<lparr>result_output = finalText, usage = resolved,
                             result_progressCounter = newProgressCounter\<rparr>,
                        writeData (Progress (createProgressAnnotation lbl doneMessage Complete
                          newProgressCounter)) w1))))"

definition PromptEnhancerAgent_try ::
    "Collaborators \<Rightarrow> AgentContext \<Rightarrow> StreamingOptions option \<Rightarrow> string \<Rightarrow> ModelInfo \<Rightarrow> int \<Rightarrow>
     World \<Rightarrow> (Err + AgentResult) \<times> World" where
  \<comment> \<open>the \<open>try\<close> block of \<open>execute\<close>\<close>
  "PromptEnhancerAgent_try deps context streamingOptions messageContent modelInfo
       newProgressCounter w =
     finishStreamText deps
       \<lparr>arg_messages =
          [\<lparr>role = ''user'',
            content = Text (''[Model: '' @ model modelInfo @ '']'' @ [CHR 0x0A, CHR 0x0A]
              @ ''[Provider: '' @ providerName modelInfo @ '']'' @ [CHR 0x0A, CHR 0x0A]
              @ stripIndents deps
                  (enhancer_instruction_before @ messageContent @ enhancer_instruction_after)),
            msg_id = None\<rparr>],
        arg_env = env context,
        arg_apiKeys = apiKeys context,
        arg_providerSettings = providerSettings context,
        arg_system = enhancer_system,
        arg_streamingOptions = streamingOptions\<rparr>
       ''enhance'' ''Prompt enhanced successfully'' newProgressCounter w"

definition PromptEnhancerAgent_execute ::
    "Collaborators \<Rightarrow> Messages \<Rightarrow> AgentContext \<Rightarrow> StreamingOptions option \<Rightarrow> World \<Rightarrow>
     (Err + AgentResult) \<times> World" where
  "PromptEnhancerAgent_execute deps messages context streamingOptions w =
     (case lastUserMessage messages of
        None \<Rightarrow> (Inl NoUserMessageToEnhance, w)
      | Some lastUser \<Rightarrow>
          (let newProgressCounter = progressCounter context + 1;
               w1 = writeData (Progress (createProgressAnnotation ''enhance''
                      ''Enhancing prompt...'' InProgress newProgressCounter)) w;
               messageContent = contentText (content lastUser);
               modelInfo = (if length messages > 0
                            then extractModelInfo_enhancer (last messages)
                            else \<lparr>model = ''gpt-4'', providerName = ''openai''\<rparr>)
           in case PromptEnhancerAgent_try deps context streamingOptions messageContent
                     modelInfo newProgressCounter w1 of
                (Inr result, w2) \<Rightarrow> (Inr result, w2)
              | (Inl error, w2) \<Rightarrow>
                  (Inl error,
                   writeData (Progress (createProgressAnnotation ''enhance''
                     ''Failed to enhance prompt'' Error newProgressCounter)) w2)))"

definition selectedContextOf ::
    "Collaborators \<Rightarrow> Messages \<Rightarrow> AgentContext \<Rightarrow> ExternalError + string" where
  \<comment> \<open>\<open>selectedContext\<close>: empty without files, else the full files context or, with context
      optimisation, what \<open>selectContext\<close> returns\<close>
  "selectedContextOf deps messages context =
     (case files context of
        None \<Rightarrow> Inr []
      | Some fm \<Rightarrow>
          if length (map fst fm) > 0 then
            (case createFilesContext deps fm True of
               Inl e \<Rightarrow> Inl e
             | Inr filesContext \<Rightarrow>
                 if contextOptimization context = Some True then
                   selectContext deps messages fm (env context) (apiKeys context)
                     (providerSettings context) (promptId context)
                     (contextOptimization context) ''Context for code generation''
                 else Inr filesContext)
          else Inr [])"

definition CodeGeneratorAgent_try ::
    "Collaborators \<Rightarrow> Messages \<Rightarrow> AgentContext \<Rightarrow> StreamingOptions option \<Rightarrow> int \<Rightarrow> World \<Rightarrow>
     (Err + AgentResult) \<times> World" where
  \<comment> \<open>the \<open>try\<close> block of \<open>execute\<close>\<close>
  "CodeGeneratorAgent_try deps messages context streamingOptions newProgressCounter w =
     (case selectedContextOf deps messages context of
        Inl e \<Rightarrow> (Inl (External e), w)
      | Inr selectedContext \<Rightarrow>
          (let messagesWithContext =
                 (if selectedContext \<noteq> [] then
                    messages @
                    [\<lparr>role = ''system'',
                      content = Text (''Context from the project files:'' @ [CHR 0x0A]
                                      @ selectedContext),
                      msg_id = Some (randomUUID deps)\<rparr>]
                  else messages)
           in finishStreamText deps
                \<lparr>arg_messages = messagesWithContext,
                 arg_env = env context,
                 arg_apiKeys = apiKeys context,
                 arg_providerSettings = providerSettings context,
                 arg_system = codegen_system,
                 arg_streamingOptions = streamingOptions\<rparr>
                ''code-gen'' ''Code generated successfully'' newProgressCounter w))"

definition CodeGeneratorAgent_execute ::
    "Collaborators \<Rightarrow> Messages \<Rightarrow> AgentContext \<Rightarrow> StreamingOptions option \<Rightarrow> World \<Rightarrow>
     (Err + AgentResult) \<times> World" where
  "CodeGeneratorAgent_execute deps messages context streamingOptions w =
     (let newProgressCounter = progressCounter context + 1;
          w1 = writeData (Progress (createProgressAnnotation ''code-gen''
                 ''Generating code...'' InProgress newProgressCounter)) w
      in case CodeGeneratorAgent_try deps messages context streamingOptions
                newProgressCounter w1 of
           (Inr result, w2) \<Rightarrow> (Inr result, w2)
         | (Inl error, w2) \<Rightarrow>
             (Inl error,
              writeData (Progress (createProgressAnnotation ''code-gen''
                ''Failed to generate code'' Error newProgressCounter)) w2))"

section \<open>The orchestrator (langchain-agents/orchestrator.ts)\<close>

record OrchestratorOptions =
  opt_messages :: Messages
  opt_files :: "FileMap option"
  opt_env :: "string \<rightharpoonup> string"
  opt_apiKeys :: "string \<rightharpoonup> string"
  opt_providerSettings :: "string \<rightharpoonup> IProviderSetting"
  opt_promptId :: "string option"
  opt_contextOptimization :: "bool option"

record OrchestratorResult =
  final_text :: string
  final_usage :: Usage

type_synonym Agent = "Messages \<Rightarrow> AgentContext \<Rightarrow> World \<Rightarrow> (Err + AgentResult) \<times> World"

record Agents =
  prompt_enhancer :: Agent
  code_generator :: Agent

definition agents :: "Collaborators \<Rightarrow> Agents" where
  "agents deps =
     \<lparr>prompt_enhancer = LangChain_PromptEnhancerAgent_execute deps,
      code_generator = LangChain_CodeGeneratorAgent_execute deps\<rparr>"

definition ensureString :: "string \<Rightarrow> string" where
  \<comment> \<open>llm/utils.ts on a value that is a string already, as \<open>AgentResult.output\<close> is: neither
      a promise nor an object, so the branch \<open>typeof value === 'string'\<close> returns it\<close>
  "ensureString v = v"

definition originalPromptText :: "Collaborators \<Rightarrow> Messages \<Rightarrow> string" where
  \<comment> \<open>\<open>lastUserMessage?.content || ''\<close>, as a string or through \<open>JSON.stringify\<close>\<close>
  "originalPromptText deps messages =
     (case lastUserMessage messages of
        None \<Rightarrow> []
      | Some lastUser \<Rightarrow>
          (case content lastUser of
             Text s \<Rightarrow> s
           | Parts ps \<Rightarrow> JSON_stringify deps ps))"

definition enhancedUserMessage :: "ModelInfo \<Rightarrow> string \<Rightarrow> string \<Rightarrow> Message" where
  "enhancedUserMessage modelInfo enhancedPrompt newId =
     \<lparr>role = ''user'',
      content = Text (''[Model: '' @ model modelInfo @ '']'' @ [CHR 0x0A, CHR 0x0A]
        @ ''[Provider: '' @ providerName modelInfo @ '']'' @ [CHR 0x0A, CHR 0x0A]
        @ enhancedPrompt),
      msg_id = Some newId\<rparr>"

definition lastUserIndex :: "Messages \<Rightarrow> nat option" where
  \<comment> \<open>\<open>.map((msg, idx) => ({role, idx})).filter(item => item.role === 'user').pop()?.idx\<close>\<close>
  "lastUserIndex messages =
     (case rev (filter (\<lambda>item. fst item = ''user'')
                  (zip (map role messages) [0..<length messages])) of
        [] \<Rightarrow> None
      | item # _ \<Rightarrow> Some (snd item))"

definition messagesWithEnhancedPrompt :: "Messages \<Rightarrow> Message \<Rightarrow> Messages" where
  "messagesWithEnhancedPrompt messages newMessage =
     (case lastUserIndex messages of
        Some i \<Rightarrow> messages[i := newMessage]
      | None \<Rightarrow> messages @ [newMessage])"

definition combinedUsage :: "AgentResult \<Rightarrow> AgentResult \<Rightarrow> Usage" where
  "combinedUsage enhancerResult codeGenResult =
     \<lparr>completionTokens =
        or_zero (map_option completionTokens (usage enhancerResult))
        + or_zero (map_option completionTokens (usage codeGenResult)),
      promptTokens =
        or_zero (map_option promptTokens (usage enhancerResult))
        + or_zero (map_option promptTokens (usage codeGenResult)),
      totalTokens =
        or_zero (map_option totalTokens (usage enhancerResult))
        + or_zero (map_option totalTokens (usage codeGenResult))\<rparr>"

definition initialContext :: "OrchestratorOptions \<Rightarrow> AgentContext" where
  \<comment> \<open>\<open>agentContext\<close>, with \<open>progressCounter = 0\<close>\<close>
  "initialContext options =
     \<lparr>env = opt_env options,
      apiKeys = opt_apiKeys options,
      providerSettings = opt_providerSettings options,
      files = opt_files options,
      promptId = opt_promptId options,
      contextOptimization = opt_contextOptimization options,
      progressCounter = 0\<rparr>"

definition selectedModelInfo :: "Messages \<Rightarrow> ModelInfo" where
  "selectedModelInfo messages =
     (if length messages > 0 then extractModelInfo (last messages)
      else \<lparr>model = ''gpt-4o'', providerName = ''OpenAI''\<rparr>)"

definition codeGeneratorMessages :: "Collaborators \<Rightarrow> Messages \<Rightarrow> AgentResult \<Rightarrow> Messages" where
  \<comment> \<open>the message array handed to the code generator after a successful enhancement\<close>
  "codeGeneratorMessages deps messages enhancerResult =
     (let enhancedPrompt = ensureString (result_output enhancerResult);
          modelInfo = selectedModelInfo messages
      in messagesWithEnhancedPrompt messages
           (enhancedUserMessage modelInfo enhancedPrompt (generateId deps)))"

definition orchestrateWith ::
    "Collaborators \<Rightarrow> Agents \<Rightarrow> OrchestratorOptions \<Rightarrow> World \<Rightarrow>
     (Err + OrchestratorResult) \<times> World" where
  \<comment> \<open>the body of \<open>orchestrateLangChainAgents\<close> over a table of agents\<close>
  "orchestrateWith deps ags options w =
     (let messages = opt_messages options;
          agentContext = initialContext options;
          originalPrompt = originalPromptText deps messages
      in case prompt_enhancer ags messages agentContext w of
           (Inl error, w1) \<Rightarrow> (Inl error, w1)
         | (Inr enhancerResult, w1) \<Rightarrow>
             (let enhancedPrompt = ensureString (result_output enhancerResult);
                  w2 = writeData (PromptComparison originalPrompt enhancedPrompt) w1;
                  updatedContext =
                    agentContext\<lparr>progressCounter := result_progressCounter enhancerResult\<rparr>
              in case code_generator ags (codeGeneratorMessages deps messages enhancerResult)
                        updatedContext w2 of
                   (Inl error, w3) \<Rightarrow> (Inl error, w3)
                 | (Inr codeGenResult, w3) \<Rightarrow>
                     (let generatedCode = ensureString (result_output codeGenResult)
                      in (Inr \<lparr>final_text = generatedCode,
                               final_usage = combinedUsage enhancerResult codeGenResult\<rparr>,
                          w3))))"

definition orchestrateLangChainAgents ::
    "Collaborators \<Rightarrow> OrchestratorOptions \<Rightarrow> World \<Rightarrow> (Err + OrchestratorResult) \<times> World" where
  "orchestrateLangChainAgents deps options w = orchestrateWith deps (agents deps) options w"

text \<open>The \<open>order\<close> values of the progress annotations in a stream, as written.\<close>

fun progressOrders :: "StreamData list \<Rightarrow> int list" where
  "progressOrders [] = []"
| "progressOrders (Progress a # ds) = order a # progressOrders ds"
| "progressOrders (PromptComparison _ _ # ds) = progressOrders ds"

section \<open>The specification's reading of usage totals and key resolution\<close>

text \<open>
  These two follow the specification's words, for comparison with the code above: an
  absent usage counts as all-zero and usages add field by field; a key is the first
  non-empty value among the key map's entry under the provider's display name, the request
  environment's entry under \<open><PROVIDER>_API_KEY\<close> and the process environment's entry under
  the same name, and the empty string when there is none.
\<close>

definition usage_or_zero :: "Usage option \<Rightarrow> Usage" where
  "usage_or_zero u =
     (case u of
        None \<Rightarrow> \<lparr>completionTokens = 0, promptTokens = 0, totalTokens = 0\<rparr>
      | Some v \<Rightarrow> v)"

definition usage_sum :: "Usage \<Rightarrow> Usage \<Rightarrow> Usage" where
  "usage_sum a b =
     \<lparr>completionTokens = completionTokens a + completionTokens b,
      promptTokens = promptTokens a + promptTokens b,
      totalTokens = totalTokens a + totalTokens b\<rparr>"

definition spec_displayName :: "string \<Rightarrow> string" where
  "spec_displayName provider =
     (if toLowerCase provider = ''anthropic'' then ''Anthropic''
      else if toLowerCase provider = ''openai'' then ''OpenAI''
      else if toLowerCase provider = ''groq'' then ''Groq''
      else provider)"

fun firstNonEmpty :: "string option list \<Rightarrow> string" where
  "firstNonEmpty [] = []"
| "firstNonEmpty (None # vs) = firstNonEmpty vs"
| "firstNonEmpty (Some s # vs) = (if s = [] then firstNonEmpty vs else s)"

definition spec_envKeyName :: "string \<Rightarrow> string option" where
  \<comment> \<open>\<open><PROVIDER>_API_KEY\<close>\<close>
  "spec_envKeyName provider = map_option (\<lambda>u. u @ ''_API_KEY'') (toUpperCase provider)"

definition spec_getApiKey :: "(string \<rightharpoonup> string) \<Rightarrow> AgentContext \<Rightarrow> string \<Rightarrow> string" where
  "spec_getApiKey penv context provider =
     firstNonEmpty
       [apiKeys context (spec_displayName provider),
        Option.bind (spec_envKeyName provider) (env context),
        Option.bind (spec_envKeyName provider) penv]"

section \<open>A sample request\<close>

text \<open>
  The history of the specification's scenario, collaborators whose model always answers
  \<open>" ok "\<close>, and a request carrying an OpenAI key.
\<close>

definition sample_messages :: Messages where
  "sample_messages =
     [\<lparr>role = ''system'', content = Text ''You are helpful'', msg_id = Some ''m1''\<rparr>,
      \<lparr>role = ''user'',
       content = Text ''[Model: gpt-4][Provider: openai] write a fibonacci function'',
       msg_id = Some ''m2''\<rparr>]"

definition sample_deps :: Collaborators where
  "sample_deps =
     \<lparr>process_env = Map.empty,
      invoke = (\<lambda>llm msgs. Inr '' ok ''),
      streamText = (\<lambda>args. Inr \<lparr>field_text = PlainText (Some ''ok''), field_usage = None\<rparr>),
      stripIndents = (\<lambda>s. s),
      createFilesContext = (\<lambda>fm rel. Inr []),
      selectContext = (\<lambda>ms fm e ks ps pid opt summary. Inr []),
      randomUUID = ''uuid-1'',
      generateId = ''id-1'',
      JSON_stringify = (\<lambda>ps. ''[]'')\<rparr>"

definition sample_options :: OrchestratorOptions where
  "sample_options =
     \<lparr>opt_messages = sample_messages,
      opt_files = None,
      opt_env = Map.empty,
      opt_apiKeys = [''OpenAI'' \<mapsto> ''sk-test''],
      opt_providerSettings = Map.empty,
      opt_promptId = None,
      opt_contextOptimization = None\<rparr>"

definition sample_world :: World where
  "sample_world = \<lparr>dataStream = [], invocations = []\<rparr>"

text \<open>Two agents that answer at once, the first of them without usage data.\<close>

definition stub_agents :: Agents where
  "stub_agents =
     \<lparr>prompt_enhancer =
        (\<lambda>ms c w. (Inr \<lparr>result_output = ''better'', usage = None,
                         result_progressCounter = progressCounter c + 1\<rparr>, w)),
      code_generator =
        (\<lambda>ms c w. (Inr \<lparr>result_output = ''code'',
                         usage = Some \<lparr>completionTokens = 5, promptTokens = 7,
                                       totalTokens = 12\<rparr>,
                         result_progressCounter = progressCounter c + 1\<rparr>, w))\<rparr>"

section \<open>Auxiliary facts\<close>

subsection \<open>Strings\<close>

lemma ceil_quarter_div: "ceil_quarter n = (int n + 3) div 4"
proof -
  have "ceil_quarter n = \<lceil>(of_int (int n) :: rat) / of_int 4\<rceil>"
    by (simp add: ceil_quarter_def)
  also have "\<dots> = - (- int n div 4)"
    by (rule ceiling_divide_eq_div)
  also have "\<dots> = (int n + 3) div 4"
    by linarith
  finally show ?thesis .
qed

lemma toUpperCaseChar_lower: "toUpperCaseChar (toLowerCaseChar c) = toUpperCaseChar c"
  unfolding toUpperCaseChar_def toLowerCaseChar_def lowerLetters_def upperLetters_def
  by (simp split: option.splits)

lemma toUpperCase_lower: "toUpperCase (toLowerCase s) = toUpperCase s"
  by (induction s) (simp_all add: toLowerCase_def toUpperCaseChar_lower split: option.splits)

lemma toUpperCase_known:
  "toLowerCase p = ''anthropic'' \<Longrightarrow> toUpperCase p = Some ''ANTHROPIC''"
  "toLowerCase p = ''openai'' \<Longrightarrow> toUpperCase p = Some ''OPENAI''"
  "toLowerCase p = ''groq'' \<Longrightarrow> toUpperCase p = Some ''GROQ''"
proof -
  have u: "toUpperCase p = toUpperCase (toLowerCase p)"
    by (simp add: toUpperCase_lower)
  show "toLowerCase p = ''anthropic'' \<Longrightarrow> toUpperCase p = Some ''ANTHROPIC''"
    by (subst u) (simp add: toUpperCaseChar_def lowerLetters_def upperLetters_def)
  show "toLowerCase p = ''openai'' \<Longrightarrow> toUpperCase p = Some ''OPENAI''"
    by (subst u) (simp add: toUpperCaseChar_def lowerLetters_def upperLetters_def)
  show "toLowerCase p = ''groq'' \<Longrightarrow> toUpperCase p = Some ''GROQ''"
    by (subst u) (simp add: toUpperCaseChar_def lowerLetters_def upperLetters_def)
qed

lemma value_or_chain:
  "value_or_empty (value_or (map_option Str a)
     (value_or (map_option Str b) (map_option Str c))) = Str (firstNonEmpty [a, b, c])"
  by (cases a; cases b; cases c) (simp_all add: value_or_empty_def value_or_def)

lemma lookupProperty_own:
  "name \<notin> set objectPrototypeNames \<Longrightarrow> lookupProperty obj name = map_option Str (obj name)"
  by (simp add: lookupProperty_def split: option.splits)

lemma lookupName_bind: "lookupName environment name = map_option Str (Option.bind name environment)"
  by (cases name) (simp_all add: lookupName_def)

lemma getApiKey_spec:
  assumes "provider \<notin> set objectPrototypeNames"
  shows "getApiKey penv context provider = Str (spec_getApiKey penv context provider)"
proof -
  have known: "lookupProperty (apiKeys context) ''Anthropic'' = map_option Str (apiKeys context ''Anthropic'')"
    "lookupProperty (apiKeys context) ''OpenAI'' = map_option Str (apiKeys context ''OpenAI'')"
    "lookupProperty (apiKeys context) ''Groq'' = map_option Str (apiKeys context ''Groq'')"
    by (rule lookupProperty_own, simp add: objectPrototypeNames_def)+
  show ?thesis
    unfolding getApiKey_def spec_getApiKey_def spec_displayName_def spec_envKeyName_def Let_def
      known lookupProperty_own [OF assms] lookupName_bind value_or_chain
    by (simp add: toUpperCase_known)
qed

lemma getApiKey_progressCounter [simp]:
  "getApiKey penv (context\<lparr>progressCounter := n\<rparr>) p = getApiKey penv context p"
  by (simp add: getApiKey_def Let_def)

subsection \<open>Tags\<close>

lemma strip_prefix_append: "strip_prefix p (p @ s) = Some s"
  by (induction p) simp_all

lemma lazy_group_closing:
  "CHR '']'' \<notin> set g \<Longrightarrow> \<not> (\<exists>c \<in> set g. isLineTerminator c) \<Longrightarrow>
     lazy_group (g @ CHR '']'' # rest) = Some g"
  by (induction g) auto

lemma match_here_opening:
  "CHR '']'' \<notin> set g \<Longrightarrow> \<not> (\<exists>c \<in> set g. isLineTerminator c) \<Longrightarrow>
     match_here opn (opn @ g @ CHR '']'' # rest) = Some g"
  by (simp add: match_here_def strip_prefix_append lazy_group_closing)

lemma match_tag_opening:
  "CHR '']'' \<notin> set g \<Longrightarrow> \<not> (\<exists>c \<in> set g. isLineTerminator c) \<Longrightarrow>
     match_tag opn (opn @ g @ CHR '']'' # rest) = Some g"
  using match_here_opening [of g opn rest]
  by (cases "opn @ g @ CHR '']'' # rest") (simp_all add: match_here_def)

lemma match_tag_skip:
  "b \<notin> set xs \<Longrightarrow> match_tag (b # opn) (xs @ ys) = match_tag (b # opn) ys"
  by (induction xs) (auto simp add: match_here_def)

lemma roundtrip_model:
  assumes "CHR '']'' \<notin> set M" "\<not> (\<exists>c \<in> set M. isLineTerminator c)"
  shows "match_tag ''[Model: '' (''[Model: '' @ M @ '']'' @ rest) = Some M"
  using match_tag_opening [OF assms, of "''[Model: ''" rest] by simp

lemma strip_prefix_before:
  "c \<notin> set p \<Longrightarrow> strip_prefix p (xs @ c # ys) \<noteq> None \<Longrightarrow> strip_prefix p xs \<noteq> None"
proof (induction p arbitrary: xs)
  case Nil
  then show ?case by simp
next
  case (Cons a p)
  then show ?case
    by (cases xs) (auto split: if_splits)
qed

lemma match_tag_not_included:
  "c \<notin> set opn \<Longrightarrow> \<not> str_includes xs opn \<Longrightarrow>
     match_tag opn (xs @ c # ys) = match_tag opn (c # ys)"
proof (induction xs)
  case Nil
  then show ?case by simp
next
  case (Cons x xs)
  from Cons.prems have n: "strip_prefix opn (x # xs) = None" and r: "\<not> str_includes xs opn"
    by simp_all
  have "strip_prefix opn ((x # xs) @ c # ys) = None"
    using strip_prefix_before [OF Cons.prems(1), of "x # xs" ys] n by blast
  then have "match_here opn (x # xs @ c # ys) = None"
    by (simp add: match_here_def)
  then show ?case
    using Cons.IH [OF Cons.prems(1) r] by simp
qed

lemma roundtrip_provider:
  assumes "\<not> str_includes M ''[Provider: ''" "CHR '']'' \<notin> set P"
    "\<not> (\<exists>c \<in> set P. isLineTerminator c)"
  shows "match_tag ''[Provider: '' (''[Model: '' @ M @ '']'' @ [CHR 0x0A, CHR 0x0A]
           @ ''[Provider: '' @ P @ '']'' @ rest) = Some P"
proof -
  let ?tail = "''[Provider: '' @ P @ '']'' @ rest"
  have "match_tag ''[Provider: '' (''[Model: '' @ M @ '']'' @ [CHR 0x0A, CHR 0x0A] @ ?tail)
          = match_tag ''[Provider: '' (M @ CHR '']'' # ([CHR 0x0A, CHR 0x0A] @ ?tail))"
    by (simp add: match_here_def)
  also have "\<dots> = match_tag ''[Provider: '' (CHR '']'' # ([CHR 0x0A, CHR 0x0A] @ ?tail))"
    using assms(1) by (intro match_tag_not_included) simp_all
  also have "\<dots> = match_tag ''[Provider: '' ?tail"
    by (simp add: match_here_def)
  also have "\<dots> = Some P"
    using match_tag_opening [OF assms(2,3), of "''[Provider: ''" rest] by simp
  finally show ?thesis .
qed

lemma extract_enhancedUserMessage:
  assumes "\<not> str_includes M ''[Provider: ''" "CHR '']'' \<notin> set M"
    "\<not> (\<exists>c \<in> set M. isLineTerminator c)"
      and "CHR '']'' \<notin> set P" "\<not> (\<exists>c \<in> set P. isLineTerminator c)"
  shows "extractModelInfo (enhancedUserMessage \<lparr>model = M, providerName = P\<rparr> e i)
           = \<lparr>model = M, providerName = P\<rparr>"
    and "extractModelInfo_enhancer (enhancedUserMessage \<lparr>model = M, providerName = P\<rparr> e i)
           = \<lparr>model = M, providerName = P\<rparr>"
  using roundtrip_model [OF assms(2,3),
          of "[CHR 0x0A, CHR 0x0A] @ ''[Provider: '' @ P @ '']'' @ [CHR 0x0A, CHR 0x0A] @ e"]
        roundtrip_provider [OF assms(1,4,5), of "[CHR 0x0A, CHR 0x0A] @ e"]
  by (simp_all add: extractModelInfo_def extractModelInfo_enhancer_def enhancedUserMessage_def
        contentText_def)

subsection \<open>The last user message\<close>

lemma lastUserMessage_None_iff:
  "lastUserMessage messages = None \<longleftrightarrow> ''user'' \<notin> set (map role messages)"
  by (force simp add: lastUserMessage_def find_None_iff)

lemma lastUserIndex_Nil: "lastUserIndex [] = None"
  by (simp add: lastUserIndex_def)

lemma lastUserIndex_snoc:
  "lastUserIndex (ms @ [m]) = (if role m = ''user'' then Some (length ms) else lastUserIndex ms)"
  by (simp add: lastUserIndex_def)

lemma lastUserIndex_None_iff:
  "lastUserIndex ms = None \<longleftrightarrow> ''user'' \<notin> set (map role ms)"
  by (induction ms rule: rev_induct) (auto simp add: lastUserIndex_Nil lastUserIndex_snoc)

lemma lastUserIndex_Some:
  "lastUserIndex ms = Some i \<Longrightarrow>
     i < length ms \<and> role (ms ! i) = ''user''
     \<and> (\<forall>j. i < j \<and> j < length ms \<longrightarrow> role (ms ! j) \<noteq> ''user'')"
proof (induction ms rule: rev_induct)
  case Nil
  then show ?case by (simp add: lastUserIndex_Nil)
next
  case (snoc m ms)
  show ?case
  proof (cases "role m = ''user''")
    case True
    with snoc.prems have "i = length ms" by (simp add: lastUserIndex_snoc)
    with True show ?thesis by auto
  next
    case False
    with snoc.prems have "lastUserIndex ms = Some i" by (simp add: lastUserIndex_snoc)
    from snoc.IH [OF this] False show ?thesis
      by (auto simp add: nth_append less_Suc_eq)
  qed
qed

subsection \<open>The agents\<close>

lemmas agent_defs =
  LangChain_PromptEnhancerAgent_execute_def LangChain_PromptEnhancerAgent_try_def
  LangChain_CodeGeneratorAgent_execute_def LangChain_CodeGeneratorAgent_try_def
  PromptEnhancerAgent_execute_def PromptEnhancerAgent_try_def
  CodeGeneratorAgent_execute_def CodeGeneratorAgent_try_def
  finishStreamText_def writeData_def invoked_def
  createProgressAnnotation_def createProgressAnnotation_langchain_def

lemma LangChain_enhancer_events:
  assumes "lastUserMessage messages \<noteq> None"
  shows "dataStream (snd (LangChain_PromptEnhancerAgent_execute deps messages context w)) =
           dataStream w @
           [Progress \<lparr>label = ''enhance'', status = InProgress,
                      order = progressCounter context + 1, message = ''Enhancing prompt...''\<rparr>,
            Progress \<lparr>label = ''enhance'', status = Complete,
                      order = progressCounter context + 1,
                      message = (case fst (LangChain_PromptEnhancerAgent_execute deps messages context w) of
                                   Inr _ \<Rightarrow> ''Prompt enhanced successfully''
                                 | Inl _ \<Rightarrow> ''Failed to enhance prompt'')\<rparr>]"
  using assms
  by (auto simp add: agent_defs Let_def split: option.splits sum.splits prod.splits if_splits)

lemma LangChain_enhancer_counter:
  "fst (LangChain_PromptEnhancerAgent_execute deps messages context w) = Inr r \<Longrightarrow>
     result_progressCounter r = progressCounter context + 1"
  by (auto simp add: agent_defs Let_def split: option.splits sum.splits prod.splits if_splits)

lemma LangChain_generator_events:
  shows "dataStream (snd (LangChain_CodeGeneratorAgent_execute deps messages context w)) =
           dataStream w @
           [Progress \<lparr>label = ''code-gen'', status = InProgress,
                      order = progressCounter context + 1, message = ''Generating code...''\<rparr>,
            Progress \<lparr>label = ''code-gen'', status = Complete,
                      order = progressCounter context + 1,
                      message = (case fst (LangChain_CodeGeneratorAgent_execute deps messages context w) of
                                   Inr _ \<Rightarrow> ''Code generated successfully''
                                 | Inl _ \<Rightarrow> ''Failed to generate code'')\<rparr>]"
  by (auto simp add: agent_defs Let_def split: option.splits sum.splits prod.splits if_splits)

lemma LangChain_generator_counter:
  "fst (LangChain_CodeGeneratorAgent_execute deps messages context w) = Inr r \<Longrightarrow>
     result_progressCounter r = progressCounter context + 1"
  by (auto simp add: agent_defs Let_def split: option.splits sum.splits prod.splits if_splits)

lemma enhancer_events:
  assumes "lastUserMessage messages \<noteq> None"
  shows "dataStream (snd (PromptEnhancerAgent_execute deps messages context so w)) =
           dataStream w @
           [Progress \<lparr>label = ''enhance'', status = InProgress,
                      order = progressCounter context + 1, message = ''Enhancing prompt...''\<rparr>,
            Progress \<lparr>label = ''enhance'', status = Complete,
                      order = progressCounter context + 1,
                      message = (case fst (PromptEnhancerAgent_execute deps messages context so w) of
                                   Inr _ \<Rightarrow> ''Prompt enhanced successfully''
                                 | Inl _ \<Rightarrow> ''Failed to enhance prompt'')\<rparr>]"
  using assms
  by (auto simp add: agent_defs Let_def split: option.splits sum.splits prod.splits if_splits)

lemma enhancer_counter:
  "fst (PromptEnhancerAgent_execute deps messages context so w) = Inr r \<Longrightarrow>
     result_progressCounter r = progressCounter context + 1"
  by (auto simp add: agent_defs Let_def split: option.splits sum.splits prod.splits if_splits)

lemma generator_events:
  shows "dataStream (snd (CodeGeneratorAgent_execute deps messages context so w)) =
           dataStream w @
           [Progress \<lparr>label = ''code-gen'', status = InProgress,
                      order = progressCounter context + 1, message = ''Generating code...''\<rparr>,
            Progress \<lparr>label = ''code-gen'', status = Complete,
                      order = progressCounter context + 1,
                      message = (case fst (CodeGeneratorAgent_execute deps messages context so w) of
                                   Inr _ \<Rightarrow> ''Code generated successfully''
                                 | Inl _ \<Rightarrow> ''Failed to generate code'')\<rparr>]"
  by (auto simp add: agent_defs Let_def split: option.splits sum.splits prod.splits if_splits)

lemma generator_counter:
  "fst (CodeGeneratorAgent_execute deps messages context so w) = Inr r \<Longrightarrow>
     result_progressCounter r = progressCounter context + 1"
  by (auto simp add: agent_defs Let_def split: option.splits sum.splits prod.splits if_splits)

lemma LangChain_enhancer_result:
  assumes "lastUserMessage messages = Some lastUser"
  shows "fst (LangChain_PromptEnhancerAgent_execute deps messages context w) =
     (let modelInfo = selectedModelInfo messages;
          apiKey = getApiKey (process_env deps) context (providerName modelInfo);
          prompt = format (createPromptForAgent PROMPT_ENHANCER) (contentText (content lastUser))
      in if \<not> isTruthy apiKey then Inl (NoApiKeyForProvider (providerName modelInfo))
         else case invoke deps (createLangChainModel (process_env deps) (providerName modelInfo)
                     (model modelInfo) apiKey 0.2) [HumanMessage prompt] of
                Inl e \<Rightarrow> Inl (External e)
              | Inr response \<Rightarrow>
                  Inr \<lparr>result_output = trim response,
                       usage = Some (estimatedUsage (length prompt) (length (trim response))),
                       result_progressCounter = progressCounter context + 1\<rparr>)"
  using assms
  by (auto simp add: agent_defs Let_def selectedModelInfo_def split: sum.splits)

lemma LangChain_generator_result:
  assumes "lastUserMessage messages = Some lastUser"
      and "LangChain_filesContext deps context = Inr filesContext"
  shows "fst (LangChain_CodeGeneratorAgent_execute deps messages context w) =
     (let modelInfo = extractModelInfo lastUser;
          apiKey = getApiKey (process_env deps) context (providerName modelInfo);
          systemMessage = codegen_systemMessage filesContext;
          prompt = format (createPromptForAgent CODE_GENERATOR) (contentText (content lastUser))
      in if \<not> isTruthy apiKey then Inl (NoApiKeyForProvider (providerName modelInfo))
         else case invoke deps (createLangChainModel (process_env deps) (providerName modelInfo)
                     (model modelInfo) apiKey 0) [SystemMessage systemMessage, HumanMessage prompt] of
                Inl e \<Rightarrow> Inl (External e)
              | Inr response \<Rightarrow>
                  Inr \<lparr>result_output = trim response,
                       usage = Some (estimatedUsage (length systemMessage + length prompt)
                                 (length (trim response))),
                       result_progressCounter = progressCounter context + 1\<rparr>)"
  using assms
  by (auto simp add: agent_defs Let_def split: sum.splits)

lemma LangChain_enhancer_invocations:
  assumes "lastUserMessage messages = Some lastUser"
      and "\<not> isTruthy (getApiKey (process_env deps) context
                (providerName (selectedModelInfo messages)))"
  shows "invocations (snd (LangChain_PromptEnhancerAgent_execute deps messages context w)) = invocations w"
  using assms
  by (auto simp add: agent_defs Let_def selectedModelInfo_def split: sum.splits)

lemma LangChain_generator_invocations:
  assumes "lastUserMessage messages = Some lastUser"
      and "\<not> isTruthy (getApiKey (process_env deps) context
                (providerName (extractModelInfo lastUser)))"
  shows "invocations (snd (LangChain_CodeGeneratorAgent_execute deps messages context w)) = invocations w"
  using assms
  by (auto simp add: agent_defs Let_def split: sum.splits)

subsection \<open>The orchestrator\<close>

lemma orchestrateWith_success:
  assumes "orchestrateWith deps ags options w = (Inr res, w')"
  shows "\<exists>er gr w1.
           prompt_enhancer ags (opt_messages options) (initialContext options) w = (Inr er, w1)
         \<and> code_generator ags (codeGeneratorMessages deps (opt_messages options) er)
              ((initialContext options)\<lparr>progressCounter := result_progressCounter er\<rparr>)
              (writeData (PromptComparison (originalPromptText deps (opt_messages options))
                            (result_output er)) w1) = (Inr gr, w')
         \<and> res = \<lparr>final_text = result_output gr, final_usage = combinedUsage er gr\<rparr>"
  using assms
  by (auto simp add: orchestrateWith_def Let_def ensureString_def split: prod.splits sum.splits)

lemma combinedUsage_sum:
  "combinedUsage er gr = usage_sum (usage_or_zero (usage er)) (usage_or_zero (usage gr))"
  by (simp add: combinedUsage_def usage_sum_def usage_or_zero_def or_zero_def split: option.splits)

lemma orchestrate_events:
  assumes "orchestrateLangChainAgents deps options w = (Inr res, w')"
  shows "\<exists>original enhanced.
     dataStream w' = dataStream w @
       [Progress \<lparr>label = ''enhance'', status = InProgress, order = 1, message = ''Enhancing prompt...''\<rparr>,
        Progress \<lparr>label = ''enhance'', status = Complete, order = 1, message = ''Prompt enhanced successfully''\<rparr>,
        PromptComparison original enhanced,
        Progress \<lparr>label = ''code-gen'', status = InProgress, order = 2, message = ''Generating code...''\<rparr>,
        Progress \<lparr>label = ''code-gen'', status = Complete, order = 2, message = ''Code generated successfully''\<rparr>]"
proof -
  from assms obtain er gr w1 where
    e: "LangChain_PromptEnhancerAgent_execute deps (opt_messages options) (initialContext options) w = (Inr er, w1)"
    and g: "LangChain_CodeGeneratorAgent_execute deps (codeGeneratorMessages deps (opt_messages options) er)
              ((initialContext options)\<lparr>progressCounter := result_progressCounter er\<rparr>)
              (writeData (PromptComparison (originalPromptText deps (opt_messages options))
                            (result_output er)) w1) = (Inr gr, w')"
    using orchestrateWith_success [of deps "agents deps" options w res w']
    by (auto simp add: orchestrateLangChainAgents_def agents_def)
  have u: "lastUserMessage (opt_messages options) \<noteq> None"
    using e by (auto simp add: LangChain_PromptEnhancerAgent_execute_def split: option.splits)
  have c: "result_progressCounter er = 1"
    using LangChain_enhancer_counter [of deps "opt_messages options" "initialContext options" w er] e
    by (simp add: initialContext_def)
  have d1: "dataStream w1 = dataStream w @
       [Progress \<lparr>label = ''enhance'', status = InProgress, order = 1, message = ''Enhancing prompt...''\<rparr>,
        Progress \<lparr>label = ''enhance'', status = Complete, order = 1, message = ''Prompt enhanced successfully''\<rparr>]"
    using LangChain_enhancer_events [OF u, of deps "initialContext options" w] e
    by (simp add: initialContext_def)
  have d2: "dataStream w' = dataStream (writeData (PromptComparison (originalPromptText deps (opt_messages options))
                            (result_output er)) w1) @
       [Progress \<lparr>label = ''code-gen'', status = InProgress, order = 2, message = ''Generating code...''\<rparr>,
        Progress \<lparr>label = ''code-gen'', status = Complete, order = 2, message = ''Code generated successfully''\<rparr>]"
    using LangChain_generator_events [of deps "codeGeneratorMessages deps (opt_messages options) er"
        "(initialContext options)\<lparr>progressCounter := result_progressCounter er\<rparr>"
        "writeData (PromptComparison (originalPromptText deps (opt_messages options)) (result_output er)) w1"] g c
    by simp
  show ?thesis using d1 d2 by (simp add: writeData_def)
qed

subsection \<open>The sample request\<close>

lemma sample_model: "selectedModelInfo sample_messages = \<lparr>model = ''gpt-4'', providerName = ''openai''\<rparr>"
  by (simp add: selectedModelInfo_def sample_messages_def extractModelInfo_def contentText_def match_here_def isLineTerminator_def)

lemma sample_key:
  "getApiKey Map.empty (initialContext sample_options) ''openai'' = Str ''sk-test''"
  by (simp add: getApiKey_def initialContext_def sample_options_def toLowerCase_def
        toLowerCaseChar_def value_or_empty_def value_or_def lookupProperty_def)

lemma filesContext_progressCounter [simp]:
  "LangChain_filesContext deps (context\<lparr>progressCounter := n\<rparr>) = LangChain_filesContext deps context"
  by (simp add: LangChain_filesContext_def)

lemma trim_sample: "trim '' ok '' = ''ok''"
  by (simp add: trim_def isWhiteSpace_def)

lemma sample_lastUser:
  "lastUserMessage sample_messages =
     Some \<lparr>role = ''user'',
           content = Text ''[Model: gpt-4][Provider: openai] write a fibonacci function'',
           msg_id = Some ''m2''\<rparr>"
  by (simp add: lastUserMessage_def sample_messages_def)

lemma sample_enhancer_result:
  "\<exists>er. fst (LangChain_PromptEnhancerAgent_execute sample_deps sample_messages
          (initialContext sample_options) w) = Inr er
      \<and> result_output er = ''ok'' \<and> result_progressCounter er = 1"
proof -
  have k: "getApiKey (process_env sample_deps) (initialContext sample_options) ''openai''
             = Str ''sk-test''"
    using sample_key by (simp add: sample_deps_def)
  show ?thesis
    unfolding LangChain_enhancer_result [OF sample_lastUser] sample_model Let_def
    by (simp add: k) (simp add: sample_deps_def initialContext_def trim_sample)
qed

lemma sample_generatorMessages:
  "result_output er = ''ok'' \<Longrightarrow>
   codeGeneratorMessages sample_deps sample_messages er =
     [\<lparr>role = ''system'', content = Text ''You are helpful'', msg_id = Some ''m1''\<rparr>,
      enhancedUserMessage \<lparr>model = ''gpt-4'', providerName = ''openai''\<rparr> ''ok'' ''id-1'']"
  unfolding codeGeneratorMessages_def sample_model Let_def ensureString_def
  by (simp add: messagesWithEnhancedPrompt_def lastUserIndex_def sample_messages_def sample_deps_def)

lemma sample_generator_result:
  "\<exists>gr. fst (LangChain_CodeGeneratorAgent_execute sample_deps
          [\<lparr>role = ''system'', content = Text ''You are helpful'', msg_id = Some ''m1''\<rparr>,
           enhancedUserMessage \<lparr>model = ''gpt-4'', providerName = ''openai''\<rparr> ''ok'' ''id-1'']
          ((initialContext sample_options)\<lparr>progressCounter := 1\<rparr>) w) = Inr gr"
proof -
  let ?new = "enhancedUserMessage \<lparr>model = ''gpt-4'', providerName = ''openai''\<rparr> ''ok'' ''id-1''"
  have l: "lastUserMessage [\<lparr>role = ''system'', content = Text ''You are helpful'', msg_id = Some ''m1''\<rparr>, ?new] = Some ?new"
    by (simp add: lastUserMessage_def enhancedUserMessage_def)
  have f: "LangChain_filesContext sample_deps ((initialContext sample_options)\<lparr>progressCounter := 1\<rparr>) = Inr []"
    by (simp add: LangChain_filesContext_def initialContext_def sample_options_def)
  have m: "extractModelInfo ?new = \<lparr>model = ''gpt-4'', providerName = ''openai''\<rparr>"
    using extract_enhancedUserMessage(1) [of "''gpt-4''" "''openai''" "''ok''" "''id-1''"]
    by (simp add: isLineTerminator_def)
  have k: "getApiKey (process_env sample_deps) (initialContext sample_options) ''openai''
             = Str ''sk-test''"
    using sample_key by (simp add: sample_deps_def)
  show ?thesis
    unfolding LangChain_generator_result [OF l f] m Let_def
    by (simp add: k) (simp add: sample_deps_def)
qed

lemma sample_run_succeeds:
  "\<not> isl (fst (orchestrateLangChainAgents sample_deps sample_options sample_world))"
proof -
  obtain er w1 where e: "LangChain_PromptEnhancerAgent_execute sample_deps sample_messages
          (initialContext sample_options) sample_world = (Inr er, w1)"
    and o: "result_output er = ''ok''" and c: "result_progressCounter er = 1"
    using sample_enhancer_result [of sample_world] by (metis prod.collapse)
  let ?w2 = "writeData (PromptComparison (originalPromptText sample_deps sample_messages) ''ok'') w1"
  obtain gr w3 where g: "LangChain_CodeGeneratorAgent_execute sample_deps
          (codeGeneratorMessages sample_deps sample_messages er)
          ((initialContext sample_options)\<lparr>progressCounter := 1\<rparr>) ?w2 = (Inr gr, w3)"
    using sample_generator_result [of ?w2] sample_generatorMessages [OF o] by (metis prod.collapse)
  have m: "opt_messages sample_options = sample_messages" by (simp add: sample_options_def)
  show ?thesis
    unfolding orchestrateLangChainAgents_def orchestrateWith_def Let_def agents_def
    by (simp add: m e o c g ensureString_def)
qed

section \<open>Progress annotations never carry the error status\<close>

text \<open>
  C7. For every label, message and order, \<open>createProgressAnnotation\<close> called with status
  \<open>error\<close> returns an annotation whose status is \<open>complete\<close>; called with \<open>in-progress\<close> or
  \<open>complete\<close> it returns that status unchanged; so no annotation made by this helper has
  status \<open>error\<close>. Both copies of the helper (agents/types.ts and
  langchain-agents/utils.ts) behave so.
\<close>

theorem createProgressAnnotation_status:
  "status (createProgressAnnotation l m Error n) = Complete
   \<and> status (createProgressAnnotation l m InProgress n) = InProgress
   \<and> status (createProgressAnnotation l m Complete n) = Complete
   \<and> status (createProgressAnnotation l m st n) \<noteq> Error
   \<and> status (createProgressAnnotation_langchain l m Error n) = Complete
   \<and> status (createProgressAnnotation_langchain l m InProgress n) = InProgress
   \<and> status (createProgressAnnotation_langchain l m Complete n) = Complete
   \<and> status (createProgressAnnotation_langchain l m st n) \<noteq> Error"
  by (simp add: createProgressAnnotation_def createProgressAnnotation_langchain_def)

section \<open>Usage totals\<close>

text \<open>
  C1. For every successful two-stage orchestration run, the returned usage is the
  field-wise sum of the enhancer stage's usage and the generator stage's usage, an absent
  stage usage counting as all-zero; in particular the total tokens are the sum of the two
  stages' total tokens. The statement holds for any pair of agents in the table, hence
  for the two LangChain agents.
\<close>

theorem orchestrator_usage_is_sum:
  assumes "orchestrateWith deps ags options w = (Inr res, w')"
  shows "\<exists>er gr w1.
           prompt_enhancer ags (opt_messages options) (initialContext options) w = (Inr er, w1)
         \<and> code_generator ags (codeGeneratorMessages deps (opt_messages options) er)
              ((initialContext options)\<lparr>progressCounter := result_progressCounter er\<rparr>)
              (writeData (PromptComparison (originalPromptText deps (opt_messages options))
                            (result_output er)) w1) = (Inr gr, w')
         \<and> final_usage res = usage_sum (usage_or_zero (usage er)) (usage_or_zero (usage gr))
         \<and> totalTokens (final_usage res) =
             totalTokens (usage_or_zero (usage er)) + totalTokens (usage_or_zero (usage gr))"
proof -
  from orchestrateWith_success [OF assms] obtain er gr w1 where
    "prompt_enhancer ags (opt_messages options) (initialContext options) w = (Inr er, w1)"
    "code_generator ags (codeGeneratorMessages deps (opt_messages options) er)
       ((initialContext options)\<lparr>progressCounter := result_progressCounter er\<rparr>)
       (writeData (PromptComparison (originalPromptText deps (opt_messages options))
                     (result_output er)) w1) = (Inr gr, w')"
    "res = \<lparr>final_text = result_output gr, final_usage = combinedUsage er gr\<rparr>"
    by blast
  then have "prompt_enhancer ags (opt_messages options) (initialContext options) w = (Inr er, w1)
         \<and> code_generator ags (codeGeneratorMessages deps (opt_messages options) er)
              ((initialContext options)\<lparr>progressCounter := result_progressCounter er\<rparr>)
              (writeData (PromptComparison (originalPromptText deps (opt_messages options))
                            (result_output er)) w1) = (Inr gr, w')
         \<and> final_usage res = usage_sum (usage_or_zero (usage er)) (usage_or_zero (usage gr))
         \<and> totalTokens (final_usage res) =
             totalTokens (usage_or_zero (usage er)) + totalTokens (usage_or_zero (usage gr))"
    by (simp add: combinedUsage_sum usage_sum_def)
  then show ?thesis
    by (intro exI)
qed

theorem orchestrator_usage_is_sum_witness:
  "orchestrateWith sample_deps stub_agents sample_options sample_world =
     (Inr \<lparr>final_text = ''code'',
           final_usage = \<lparr>completionTokens = 5, promptTokens = 7, totalTokens = 12\<rparr>\<rparr>,
      \<lparr>dataStream =
         [PromptComparison ''[Model: gpt-4][Provider: openai] write a fibonacci function''
            ''better''],
       invocations = []\<rparr>)
   \<and> \<lparr>completionTokens = 5, promptTokens = 7, totalTokens = 12\<rparr> =
       usage_sum (usage_or_zero None)
         (usage_or_zero (Some \<lparr>completionTokens = 5, promptTokens = 7, totalTokens = 12\<rparr>))
   \<and> (\<exists>res w' er w1 (gr::AgentResult).
        orchestrateLangChainAgents sample_deps sample_options sample_world = (Inr res, w')
        \<and> LangChain_PromptEnhancerAgent_execute sample_deps sample_messages
            (initialContext sample_options) sample_world = (Inr er, w1)
        \<and> final_usage res = usage_sum (usage_or_zero (usage er)) (usage_or_zero (usage gr))
        \<and> totalTokens (final_usage res) =
            totalTokens (usage_or_zero (usage er)) + totalTokens (usage_or_zero (usage gr)))"
proof -
  let ?res = "\<lparr>final_text = ''code'',
           final_usage = \<lparr>completionTokens = 5, promptTokens = 7, totalTokens = 12\<rparr>\<rparr>"
  let ?w = "\<lparr>dataStream =
         [PromptComparison ''[Model: gpt-4][Provider: openai] write a fibonacci function''
            ''better''],
       invocations = []\<rparr>"
  have run: "orchestrateWith sample_deps stub_agents sample_options sample_world = (Inr ?res, ?w)"
    by (simp add: orchestrateWith_def stub_agents_def Let_def ensureString_def combinedUsage_def
          or_zero_def writeData_def sample_world_def originalPromptText_def sample_options_def
          sample_lastUser)
  have a: "\<lparr>completionTokens = 5, promptTokens = 7, totalTokens = 12\<rparr> =
       usage_sum (usage_or_zero None)
         (usage_or_zero (Some \<lparr>completionTokens = 5, promptTokens = 7, totalTokens = 12\<rparr>))"
    using orchestrator_usage_is_sum [OF run]
    by (auto simp add: stub_agents_def)
  obtain res w' where real:
    "orchestrateWith sample_deps (agents sample_deps) sample_options sample_world = (Inr res, w')"
    using sample_run_succeeds
    by (cases "orchestrateLangChainAgents sample_deps sample_options sample_world";
        cases "fst (orchestrateLangChainAgents sample_deps sample_options sample_world)")
       (auto simp add: orchestrateLangChainAgents_def)
  from orchestrator_usage_is_sum [OF real] obtain er gr w1 where
    e: "prompt_enhancer (agents sample_deps) (opt_messages sample_options)
          (initialContext sample_options) sample_world = (Inr er, w1)"
    and g: "code_generator (agents sample_deps)
          (codeGeneratorMessages sample_deps (opt_messages sample_options) er)
          ((initialContext sample_options)\<lparr>progressCounter := result_progressCounter er\<rparr>)
          (writeData (PromptComparison
             (originalPromptText sample_deps (opt_messages sample_options))
             (result_output er)) w1) = (Inr gr, w')"
    and s: "final_usage res = usage_sum (usage_or_zero (usage er)) (usage_or_zero (usage gr))"
    and t: "totalTokens (final_usage res) =
            totalTokens (usage_or_zero (usage er)) + totalTokens (usage_or_zero (usage gr))"
    by (elim exE conjE) (blast | simp | metis)
  have e': "LangChain_PromptEnhancerAgent_execute sample_deps sample_messages
              (initialContext sample_options) sample_world = (Inr er, w1)"
    using e by (simp add: agents_def sample_options_def)
  have b: "\<exists>res w' er w1 (gr::AgentResult).
        orchestrateLangChainAgents sample_deps sample_options sample_world = (Inr res, w')
        \<and> LangChain_PromptEnhancerAgent_execute sample_deps sample_messages
            (initialContext sample_options) sample_world = (Inr er, w1)
        \<and> final_usage res = usage_sum (usage_or_zero (usage er)) (usage_or_zero (usage gr))
        \<and> totalTokens (final_usage res) =
            totalTokens (usage_or_zero (usage er)) + totalTokens (usage_or_zero (usage gr))"
  proof (intro exI conjI)
    show "orchestrateLangChainAgents sample_deps sample_options sample_world = (Inr res, w')"
      using real by (simp add: orchestrateLangChainAgents_def)
    show "LangChain_PromptEnhancerAgent_execute sample_deps sample_messages
            (initialContext sample_options) sample_world = (Inr er, w1)"
      by (fact e')
    show "final_usage res = usage_sum (usage_or_zero (usage er)) (usage_or_zero (usage gr))"
      by (fact s)
    show "totalTokens (final_usage res) =
            totalTokens (usage_or_zero (usage er)) + totalTokens (usage_or_zero (usage gr))"
      by (fact t)
  qed
  from run a b show ?thesis by (intro conjI)
qed

section \<open>The missing-input error of the prompt enhancer\<close>

text \<open>
  C3. For every message history with at least one message of role \<open>user\<close>, neither prompt
  enhancer raises the missing-input error; for every history without one, each raises it,
  and does so before writing to the sink or invoking a model (the world is unchanged).
\<close>

theorem enhancer_missing_input:
  "(''user'' \<in> set (map role messages) \<longrightarrow>
      fst (LangChain_PromptEnhancerAgent_execute deps messages context w)
        \<noteq> Inl NoUserMessageToEnhance
    \<and> fst (PromptEnhancerAgent_execute deps messages context so w)
        \<noteq> Inl NoUserMessageToEnhance)
   \<and> (''user'' \<notin> set (map role messages) \<longrightarrow>
      LangChain_PromptEnhancerAgent_execute deps messages context w
        = (Inl NoUserMessageToEnhance, w)
    \<and> PromptEnhancerAgent_execute deps messages context so w
        = (Inl NoUserMessageToEnhance, w))"
proof (intro conjI impI)
  assume "''user'' \<in> set (map role messages)"
  then have u: "lastUserMessage messages \<noteq> None"
    by (simp add: lastUserMessage_None_iff)
  show "fst (LangChain_PromptEnhancerAgent_execute deps messages context w)
          \<noteq> Inl NoUserMessageToEnhance"
    using u
    by (auto simp add: agent_defs Let_def split: option.splits sum.splits prod.splits if_splits)
  show "fst (PromptEnhancerAgent_execute deps messages context so w)
          \<noteq> Inl NoUserMessageToEnhance"
    using u
    by (auto simp add: agent_defs Let_def split: option.splits sum.splits prod.splits if_splits)
next
  assume "''user'' \<notin> set (map role messages)"
  then have n: "lastUserMessage messages = None"
    by (simp add: lastUserMessage_None_iff)
  show "LangChain_PromptEnhancerAgent_execute deps messages context w
          = (Inl NoUserMessageToEnhance, w)"
    by (simp add: LangChain_PromptEnhancerAgent_execute_def n)
  show "PromptEnhancerAgent_execute deps messages context so w
          = (Inl NoUserMessageToEnhance, w)"
    by (simp add: PromptEnhancerAgent_execute_def n)
qed

theorem enhancer_missing_input_witness:
  "''user'' \<in> set (map role sample_messages)
   \<and> fst (LangChain_PromptEnhancerAgent_execute sample_deps sample_messages
            (initialContext sample_options) sample_world) \<noteq> Inl NoUserMessageToEnhance
   \<and> fst (PromptEnhancerAgent_execute sample_deps sample_messages
            (initialContext sample_options) None sample_world) \<noteq> Inl NoUserMessageToEnhance
   \<and> ''user'' \<notin> set (map role [\<lparr>role = ''system'', content = Text ''You are helpful'',
                                  msg_id = Some ''m1''\<rparr>])
   \<and> LangChain_PromptEnhancerAgent_execute sample_deps
        [\<lparr>role = ''system'', content = Text ''You are helpful'', msg_id = Some ''m1''\<rparr>]
        (initialContext sample_options) sample_world
       = (Inl NoUserMessageToEnhance, sample_world)
   \<and> PromptEnhancerAgent_execute sample_deps
        [\<lparr>role = ''system'', content = Text ''You are helpful'', msg_id = Some ''m1''\<rparr>]
        (initialContext sample_options) None sample_world
       = (Inl NoUserMessageToEnhance, sample_world)"
  using enhancer_missing_input [of sample_messages sample_deps "initialContext sample_options"
          sample_world None]
        enhancer_missing_input [of "[\<lparr>role = ''system'', content = Text ''You are helpful'',
          msg_id = Some ''m1''\<rparr>]" sample_deps "initialContext sample_options" sample_world None]
  by (simp add: sample_messages_def)

section \<open>The message sequence handed to the code generator\<close>

text \<open>
  C5. For every message history with at least one user message, the sequence passed to the
  code-generator stage is the original sequence with exactly one change: the message at
  the position of the last user message is replaced by one new message of role \<open>user\<close>
  that carries the model and provider tags followed by the enhanced text; the length and
  every other position are as before. Without a user message the new message is appended.
  The orchestrator passes exactly this sequence to the code generator.
\<close>

theorem replacement_invariant:
  "(''user'' \<in> set (map role messages) \<longrightarrow>
      (\<exists>i < length messages.
          role (messages ! i) = ''user''
        \<and> (\<forall>j. i < j \<and> j < length messages \<longrightarrow> role (messages ! j) \<noteq> ''user'')
        \<and> codeGeneratorMessages deps messages er =
            messages[i := enhancedUserMessage (selectedModelInfo messages) (result_output er)
                            (generateId deps)]
        \<and> length (codeGeneratorMessages deps messages er) = length messages
        \<and> codeGeneratorMessages deps messages er ! i =
            enhancedUserMessage (selectedModelInfo messages) (result_output er)
              (generateId deps)
        \<and> (\<forall>j < length messages. j \<noteq> i \<longrightarrow>
              codeGeneratorMessages deps messages er ! j = messages ! j)))
   \<and> (''user'' \<notin> set (map role messages) \<longrightarrow>
        codeGeneratorMessages deps messages er =
          messages @ [enhancedUserMessage (selectedModelInfo messages) (result_output er)
                        (generateId deps)])
   \<and> role (enhancedUserMessage (selectedModelInfo messages) (result_output er)
              (generateId deps)) = ''user''
   \<and> content (enhancedUserMessage (selectedModelInfo messages) (result_output er)
                 (generateId deps)) =
       Text (''[Model: '' @ model (selectedModelInfo messages) @ '']'' @ [CHR 0x0A, CHR 0x0A]
             @ ''[Provider: '' @ providerName (selectedModelInfo messages) @ '']''
             @ [CHR 0x0A, CHR 0x0A] @ result_output er)
   \<and> (prompt_enhancer ags (opt_messages options) (initialContext options) w = (Inr er, w1) \<longrightarrow>
        orchestrateWith deps ags options w =
          (case code_generator ags (codeGeneratorMessages deps (opt_messages options) er)
                  ((initialContext options)\<lparr>progressCounter := result_progressCounter er\<rparr>)
                  (writeData (PromptComparison (originalPromptText deps (opt_messages options))
                                (result_output er)) w1) of
             (Inl error, w3) \<Rightarrow> (Inl error, w3)
           | (Inr codeGenResult, w3) \<Rightarrow>
               (Inr \<lparr>final_text = result_output codeGenResult,
                     final_usage = combinedUsage er codeGenResult\<rparr>, w3)))"
proof (intro conjI impI)
  let ?new = "enhancedUserMessage (selectedModelInfo messages) (result_output er)
                (generateId deps)"
  have cg: "codeGeneratorMessages deps messages er = messagesWithEnhancedPrompt messages ?new"
    by (simp add: codeGeneratorMessages_def Let_def ensureString_def)
  {
    assume "''user'' \<in> set (map role messages)"
    then obtain i where i: "lastUserIndex messages = Some i"
      using lastUserIndex_None_iff [of messages] by (cases "lastUserIndex messages") auto
    from lastUserIndex_Some [OF i] have
      b: "i < length messages" and r: "role (messages ! i) = ''user''"
      and l: "\<forall>j. i < j \<and> j < length messages \<longrightarrow> role (messages ! j) \<noteq> ''user''"
      by simp_all
    have u: "codeGeneratorMessages deps messages er = messages[i := ?new]"
      by (simp add: cg messagesWithEnhancedPrompt_def i)
    show "\<exists>i < length messages.
          role (messages ! i) = ''user''
        \<and> (\<forall>j. i < j \<and> j < length messages \<longrightarrow> role (messages ! j) \<noteq> ''user'')
        \<and> codeGeneratorMessages deps messages er = messages[i := ?new]
        \<and> length (codeGeneratorMessages deps messages er) = length messages
        \<and> codeGeneratorMessages deps messages er ! i = ?new
        \<and> (\<forall>j < length messages. j \<noteq> i \<longrightarrow>
              codeGeneratorMessages deps messages er ! j = messages ! j)"
      using b r l u by (intro exI [where x = i]) simp
  }
  {
    assume "''user'' \<notin> set (map role messages)"
    then have "lastUserIndex messages = None"
      by (simp add: lastUserIndex_None_iff)
    then show "codeGeneratorMessages deps messages er = messages @ [?new]"
      by (simp add: cg messagesWithEnhancedPrompt_def)
  }
  show "role ?new = ''user''"
    by (simp add: enhancedUserMessage_def)
  show "content ?new =
       Text (''[Model: '' @ model (selectedModelInfo messages) @ '']'' @ [CHR 0x0A, CHR 0x0A]
             @ ''[Provider: '' @ providerName (selectedModelInfo messages) @ '']''
             @ [CHR 0x0A, CHR 0x0A] @ result_output er)"
    by (simp add: enhancedUserMessage_def)
  {
    assume "prompt_enhancer ags (opt_messages options) (initialContext options) w = (Inr er, w1)"
    then show "orchestrateWith deps ags options w =
          (case code_generator ags (codeGeneratorMessages deps (opt_messages options) er)
                  ((initialContext options)\<lparr>progressCounter := result_progressCounter er\<rparr>)
                  (writeData (PromptComparison (originalPromptText deps (opt_messages options))
                                (result_output er)) w1) of
             (Inl error, w3) \<Rightarrow> (Inl error, w3)
           | (Inr codeGenResult, w3) \<Rightarrow>
               (Inr \<lparr>final_text = result_output codeGenResult,
                     final_usage = combinedUsage er codeGenResult\<rparr>, w3))"
      by (simp add: orchestrateWith_def Let_def ensureString_def split: prod.splits sum.splits)
  }
qed

theorem replacement_invariant_witness:
  "''user'' \<in> set (map role sample_messages)
   \<and> codeGeneratorMessages sample_deps sample_messages
        \<lparr>result_output = ''ok'', usage = None, result_progressCounter = 1\<rparr> =
       [\<lparr>role = ''system'', content = Text ''You are helpful'', msg_id = Some ''m1''\<rparr>,
        \<lparr>role = ''user'',
         content = Text (''[Model: gpt-4]'' @ [CHR 0x0A, CHR 0x0A] @ ''[Provider: openai]''
                         @ [CHR 0x0A, CHR 0x0A] @ ''ok''),
         msg_id = Some ''id-1''\<rparr>]
   \<and> ''user'' \<notin> set (map role [\<lparr>role = ''system'', content = Text ''You are helpful'',
                                  msg_id = Some ''m1''\<rparr>])
   \<and> codeGeneratorMessages sample_deps
        [\<lparr>role = ''system'', content = Text ''You are helpful'', msg_id = Some ''m1''\<rparr>]
        \<lparr>result_output = ''ok'', usage = None, result_progressCounter = 1\<rparr> =
       [\<lparr>role = ''system'', content = Text ''You are helpful'', msg_id = Some ''m1''\<rparr>,
        \<lparr>role = ''user'',
         content = Text (''[Model: gpt-4o]'' @ [CHR 0x0A, CHR 0x0A] @ ''[Provider: OpenAI]''
                         @ [CHR 0x0A, CHR 0x0A] @ ''ok''),
         msg_id = Some ''id-1''\<rparr>]
   \<and> prompt_enhancer stub_agents (opt_messages sample_options) (initialContext sample_options)
        sample_world =
       (Inr \<lparr>result_output = ''better'', usage = None, result_progressCounter = 1\<rparr>,
        sample_world)
   \<and> orchestrateWith sample_deps stub_agents sample_options sample_world =
       (Inr \<lparr>final_text = ''code'',
             final_usage = \<lparr>completionTokens = 5, promptTokens = 7, totalTokens = 12\<rparr>\<rparr>,
        writeData (PromptComparison (originalPromptText sample_deps sample_messages) ''better'')
          sample_world)"
proof -
  let ?sys = "\<lparr>role = ''system'', content = Text ''You are helpful'', msg_id = Some ''m1''\<rparr>"
  let ?er = "\<lparr>result_output = ''ok'', usage = None, result_progressCounter = 1\<rparr>"
  let ?br = "\<lparr>result_output = ''better'', usage = None, result_progressCounter = 1\<rparr>"
  have h1: "''user'' \<in> set (map role sample_messages)"
    by (simp add: sample_messages_def)
  have h2: "''user'' \<notin> set (map role [?sys])"
    by simp
  have h3: "prompt_enhancer stub_agents (opt_messages sample_options)
              (initialContext sample_options) sample_world = (Inr ?br, sample_world)"
    by (simp add: stub_agents_def initialContext_def)
  have m2: "selectedModelInfo [?sys] = \<lparr>model = ''gpt-4o'', providerName = ''OpenAI''\<rparr>"
    by (simp add: selectedModelInfo_def extractModelInfo_def contentText_def match_here_def)
  from replacement_invariant [of sample_messages sample_deps ?er stub_agents sample_options
         sample_world sample_world] h1
  obtain i where "i < length sample_messages" "role (sample_messages ! i) = ''user''"
    and c1: "codeGeneratorMessages sample_deps sample_messages ?er =
       sample_messages[i := enhancedUserMessage (selectedModelInfo sample_messages)
                               (result_output ?er) (generateId sample_deps)]"
    by auto
  then have "i = 1"
    by (cases i) (simp_all add: sample_messages_def)
  with c1 have "codeGeneratorMessages sample_deps sample_messages ?er =
       sample_messages[1 := enhancedUserMessage \<lparr>model = ''gpt-4'', providerName = ''openai''\<rparr>
                               ''ok'' ''id-1'']"
    by (simp add: sample_model sample_deps_def)
  then have r1: "codeGeneratorMessages sample_deps sample_messages ?er =
       [?sys,
        \<lparr>role = ''user'',
         content = Text (''[Model: gpt-4]'' @ [CHR 0x0A, CHR 0x0A] @ ''[Provider: openai]''
                         @ [CHR 0x0A, CHR 0x0A] @ ''ok''),
         msg_id = Some ''id-1''\<rparr>]"
    by (simp add: enhancedUserMessage_def sample_messages_def)
  have r2: "codeGeneratorMessages sample_deps [?sys] ?er =
       [?sys,
        \<lparr>role = ''user'',
         content = Text (''[Model: gpt-4o]'' @ [CHR 0x0A, CHR 0x0A] @ ''[Provider: OpenAI]''
                         @ [CHR 0x0A, CHR 0x0A] @ ''ok''),
         msg_id = Some ''id-1''\<rparr>]"
    using replacement_invariant [of "[?sys]" sample_deps ?er stub_agents sample_options
         sample_world sample_world] h2
    by (simp add: m2 enhancedUserMessage_def sample_deps_def)
  have r3: "orchestrateWith sample_deps stub_agents sample_options sample_world =
       (Inr \<lparr>final_text = ''code'',
             final_usage = \<lparr>completionTokens = 5, promptTokens = 7, totalTokens = 12\<rparr>\<rparr>,
        writeData (PromptComparison (originalPromptText sample_deps sample_messages) ''better'')
          sample_world)"
    using replacement_invariant [of sample_messages sample_deps ?br stub_agents sample_options
         sample_world sample_world] h3
    by (simp add: stub_agents_def combinedUsage_def or_zero_def sample_options_def)
  from h1 r1 h2 r2 h3 r3 show ?thesis
    by (intro conjI)
qed

section \<open>Progress events of one agent execution\<close>

text \<open>
  C2, as the claim states it, fails twice. A prompt enhancer run on a history without a user
  message writes no progress event at all, and a failing execution ends with an event
  whose status is \<open>complete\<close>, not \<open>error\<close>: here the LangChain enhancer on the empty
  history, and the LangChain code generator failing on it.
\<close>

theorem agent_progress_events_counterexample:
  "dataStream (snd (LangChain_PromptEnhancerAgent_execute sample_deps []
      (initialContext sample_options) sample_world)) = []
   \<and> fst (LangChain_CodeGeneratorAgent_execute sample_deps []
        (initialContext sample_options) sample_world) = Inl NoUserMessageForCodeGeneration
   \<and> dataStream (snd (LangChain_CodeGeneratorAgent_execute sample_deps []
        (initialContext sample_options) sample_world)) =
       [Progress \<lparr>label = ''code-gen'', status = InProgress, order = 1,
                  message = ''Generating code...''\<rparr>,
        Progress \<lparr>label = ''code-gen'', status = Complete, order = 1,
                  message = ''Failed to generate code''\<rparr>]"
  by (simp add: agent_defs lastUserMessage_def sample_world_def initialContext_def)

text \<open>
  C2, amended. Every execution of a code generator, and every execution of a prompt
  enhancer on a history with a user message, writes exactly two progress events to the
  sink: the first with status \<open>in-progress\<close>, the second with status \<open>complete\<close> whether
  the execution succeeds or fails (only its message tells the two apart), both with the
  stage's label (\<open>enhance\<close> or \<open>code-gen\<close>) and with order equal to the context's progress
  counter plus one. A prompt enhancer on a history without a user message raises the
  missing-input error and writes nothing. On success the returned progress counter is the
  context's counter plus one. This holds for the standard and the LangChain agents.
\<close>

theorem agent_progress_events:
  "(''user'' \<in> set (map role messages) \<longrightarrow>
      dataStream (snd (LangChain_PromptEnhancerAgent_execute deps messages context w)) =
        dataStream w @
        [Progress \<lparr>label = ''enhance'', status = InProgress,
                   order = progressCounter context + 1, message = ''Enhancing prompt...''\<rparr>,
         Progress \<lparr>label = ''enhance'', status = Complete,
                   order = progressCounter context + 1,
                   message =
                     (case fst (LangChain_PromptEnhancerAgent_execute deps messages context w) of
                        Inr _ \<Rightarrow> ''Prompt enhanced successfully''
                      | Inl _ \<Rightarrow> ''Failed to enhance prompt'')\<rparr>]
    \<and> dataStream (snd (PromptEnhancerAgent_execute deps messages context so w)) =
        dataStream w @
        [Progress \<lparr>label = ''enhance'', status = InProgress,
                   order = progressCounter context + 1, message = ''Enhancing prompt...''\<rparr>,
         Progress \<lparr>label = ''enhance'', status = Complete,
                   order = progressCounter context + 1,
                   message =
                     (case fst (PromptEnhancerAgent_execute deps messages context so w) of
                        Inr _ \<Rightarrow> ''Prompt enhanced successfully''
                      | Inl _ \<Rightarrow> ''Failed to enhance prompt'')\<rparr>])
   \<and> (''user'' \<notin> set (map role messages) \<longrightarrow>
      LangChain_PromptEnhancerAgent_execute deps messages context w
        = (Inl NoUserMessageToEnhance, w)
    \<and> PromptEnhancerAgent_execute deps messages context so w
        = (Inl NoUserMessageToEnhance, w))
   \<and> dataStream (snd (LangChain_CodeGeneratorAgent_execute deps messages context w)) =
        dataStream w @
        [Progress \<lparr>label = ''code-gen'', status = InProgress,
                   order = progressCounter context + 1, message = ''Generating code...''\<rparr>,
         Progress \<lparr>label = ''code-gen'', status = Complete,
                   order = progressCounter context + 1,
                   message =
                     (case fst (LangChain_CodeGeneratorAgent_execute deps messages context w) of
                        Inr _ \<Rightarrow> ''Code generated successfully''
                      | Inl _ \<Rightarrow> ''Failed to generate code'')\<rparr>]
   \<and> dataStream (snd (CodeGeneratorAgent_execute deps messages context so w)) =
        dataStream w @
        [Progress \<lparr>label = ''code-gen'', status = InProgress,
                   order = progressCounter context + 1, message = ''Generating code...''\<rparr>,
         Progress \<lparr>label = ''code-gen'', status = Complete,
                   order = progressCounter context + 1,
                   message =
                     (case fst (CodeGeneratorAgent_execute deps messages context so w) of
                        Inr _ \<Rightarrow> ''Code generated successfully''
                      | Inl _ \<Rightarrow> ''Failed to generate code'')\<rparr>]
   \<and> (\<forall>r. fst (LangChain_PromptEnhancerAgent_execute deps messages context w) = Inr r \<longrightarrow>
          result_progressCounter r = progressCounter context + 1)
   \<and> (\<forall>r. fst (PromptEnhancerAgent_execute deps messages context so w) = Inr r \<longrightarrow>
          result_progressCounter r = progressCounter context + 1)
   \<and> (\<forall>r. fst (LangChain_CodeGeneratorAgent_execute deps messages context w) = Inr r \<longrightarrow>
          result_progressCounter r = progressCounter context + 1)
   \<and> (\<forall>r. fst (CodeGeneratorAgent_execute deps messages context so w) = Inr r \<longrightarrow>
          result_progressCounter r = progressCounter context + 1)"
proof -
  have present: "lastUserMessage messages \<noteq> None" if "''user'' \<in> set (map role messages)"
    using that by (simp add: lastUserMessage_None_iff)
  have absent: "lastUserMessage messages = None" if "''user'' \<notin> set (map role messages)"
    using that by (simp add: lastUserMessage_None_iff)
  show ?thesis
    using LangChain_enhancer_events [OF present, of deps "context" w]
          enhancer_events [OF present, of deps "context" so w]
          LangChain_generator_events [of deps messages "context" w]
          generator_events [of deps messages "context" so w]
          LangChain_enhancer_counter [of deps messages "context" w]
          enhancer_counter [of deps messages "context" so w]
          LangChain_generator_counter [of deps messages "context" w]
          generator_counter [of deps messages "context" so w]
    by (intro conjI impI allI)
       (simp_all add: LangChain_PromptEnhancerAgent_execute_def PromptEnhancerAgent_execute_def
          absent)
qed

theorem agent_progress_events_witness:
  "''user'' \<in> set (map role sample_messages)
   \<and> dataStream (snd (LangChain_PromptEnhancerAgent_execute sample_deps sample_messages
        (initialContext sample_options) sample_world)) =
       [Progress \<lparr>label = ''enhance'', status = InProgress, order = 1,
                  message = ''Enhancing prompt...''\<rparr>,
        Progress \<lparr>label = ''enhance'', status = Complete, order = 1,
                  message = ''Prompt enhanced successfully''\<rparr>]
   \<and> dataStream (snd (PromptEnhancerAgent_execute sample_deps sample_messages
        (initialContext sample_options) None sample_world)) =
       [Progress \<lparr>label = ''enhance'', status = InProgress, order = 1,
                  message = ''Enhancing prompt...''\<rparr>,
        Progress \<lparr>label = ''enhance'', status = Complete, order = 1,
                  message = ''Prompt enhanced successfully''\<rparr>]
   \<and> ''user'' \<notin> set (map role ([] :: Messages))
   \<and> LangChain_PromptEnhancerAgent_execute sample_deps [] (initialContext sample_options)
        sample_world = (Inl NoUserMessageToEnhance, sample_world)
   \<and> dataStream (snd (CodeGeneratorAgent_execute sample_deps sample_messages
        (initialContext sample_options) None sample_world)) =
       [Progress \<lparr>label = ''code-gen'', status = InProgress, order = 1,
                  message = ''Generating code...''\<rparr>,
        Progress \<lparr>label = ''code-gen'', status = Complete, order = 1,
                  message = ''Code generated successfully''\<rparr>]
   \<and> (\<exists>r. fst (CodeGeneratorAgent_execute sample_deps sample_messages
              (initialContext sample_options) None sample_world) = Inr r
          \<and> result_progressCounter r = 1)"
proof -
  have h: "''user'' \<in> set (map role sample_messages)"
    by (simp add: sample_messages_def)
  have e1: "\<not> isl (fst (LangChain_PromptEnhancerAgent_execute sample_deps sample_messages
              (initialContext sample_options) sample_world))"
    using sample_enhancer_result [of sample_world] by auto
  have e2: "\<not> isl (fst (PromptEnhancerAgent_execute sample_deps sample_messages
              (initialContext sample_options) None sample_world))"
    by (simp add: agent_defs sample_lastUser sample_deps_def resolveText_def resolveUsage_def
          or_empty_def js_or_def truthy_def Let_def)
  have g: "fst (CodeGeneratorAgent_execute sample_deps sample_messages
              (initialContext sample_options) None sample_world) =
            Inr \<lparr>result_output = ''ok'', usage = None, result_progressCounter = 1\<rparr>"
    by (simp add: agent_defs selectedContextOf_def sample_deps_def resolveText_def
          resolveUsage_def or_empty_def js_or_def truthy_def Let_def initialContext_def
          sample_options_def)
  note t1 = agent_progress_events [of sample_messages sample_deps "initialContext sample_options"
              sample_world None]
  note t2 = agent_progress_events [of "[]" sample_deps "initialContext sample_options"
              sample_world None]
  have c1: "dataStream (snd (LangChain_PromptEnhancerAgent_execute sample_deps sample_messages
        (initialContext sample_options) sample_world)) =
       [Progress \<lparr>label = ''enhance'', status = InProgress, order = 1,
                  message = ''Enhancing prompt...''\<rparr>,
        Progress \<lparr>label = ''enhance'', status = Complete, order = 1,
                  message = ''Prompt enhanced successfully''\<rparr>]"
    using t1 h e1 by (simp add: initialContext_def sample_world_def split: sum.splits)
  have c2: "dataStream (snd (PromptEnhancerAgent_execute sample_deps sample_messages
        (initialContext sample_options) None sample_world)) =
       [Progress \<lparr>label = ''enhance'', status = InProgress, order = 1,
                  message = ''Enhancing prompt...''\<rparr>,
        Progress \<lparr>label = ''enhance'', status = Complete, order = 1,
                  message = ''Prompt enhanced successfully''\<rparr>]"
    using t1 h e2 by (simp add: initialContext_def sample_world_def split: sum.splits)
  have c3: "LangChain_PromptEnhancerAgent_execute sample_deps [] (initialContext sample_options)
        sample_world = (Inl NoUserMessageToEnhance, sample_world)"
    using t2 by simp
  have c4: "dataStream (snd (CodeGeneratorAgent_execute sample_deps sample_messages
        (initialContext sample_options) None sample_world)) =
       [Progress \<lparr>label = ''code-gen'', status = InProgress, order = 1,
                  message = ''Generating code...''\<rparr>,
        Progress \<lparr>label = ''code-gen'', status = Complete, order = 1,
                  message = ''Code generated successfully''\<rparr>]"
    using t1 g by (simp add: initialContext_def sample_world_def)
  have c5: "\<exists>r. fst (CodeGeneratorAgent_execute sample_deps sample_messages
              (initialContext sample_options) None sample_world) = Inr r
          \<and> result_progressCounter r = 1"
    using t1 g by (simp add: initialContext_def)
  from h c1 c2 c3 c4 c5 show ?thesis
    by simp
qed

section \<open>Order values across a run\<close>

text \<open>
  C6, as the claim states it, fails: the sample run succeeds, and the orders of its
  progress events are 1, 1, 2, 2, which is not a strictly increasing sequence (and does not
  start at the orchestrator's initial counter value 0).
\<close>

theorem progress_order_counterexample:
  "\<not> isl (fst (orchestrateLangChainAgents sample_deps sample_options sample_world))
   \<and> progressOrders (dataStream (snd
        (orchestrateLangChainAgents sample_deps sample_options sample_world))) = [1, 1, 2, 2]
   \<and> \<not> sorted_wrt (<) (progressOrders (dataStream (snd
        (orchestrateLangChainAgents sample_deps sample_options sample_world))))"
proof -
  obtain res w' where
    r: "orchestrateLangChainAgents sample_deps sample_options sample_world = (Inr res, w')"
    using sample_run_succeeds
    by (cases "orchestrateLangChainAgents sample_deps sample_options sample_world";
        cases "fst (orchestrateLangChainAgents sample_deps sample_options sample_world)")
       auto
  from orchestrate_events [OF r]
  have "progressOrders (dataStream w') = [1, 1, 2, 2]"
    by (auto simp add: sample_world_def)
  with r show ?thesis
    by simp
qed

text \<open>
  C6, amended. Across a full successful run of the orchestrator with its two LangChain
  agents, exactly four progress events are written, two by each stage around one
  prompt-comparison event; their order values are, in the order of writing, 1, 1, 2, 2:
  the orchestrator's counter starts at 0, the two events of the enhancer carry the counter
  plus one, the two events of the generator carry that value plus one. The sequence is
  non-decreasing, and each stage's two events share one order value.
\<close>

theorem progress_order_pairs:
  assumes "orchestrateLangChainAgents deps options w = (Inr res, w')"
  shows "\<exists>original enhanced.
           dataStream w' = dataStream w @
             [Progress \<lparr>label = ''enhance'', status = InProgress, order = 1,
                        message = ''Enhancing prompt...''\<rparr>,
              Progress \<lparr>label = ''enhance'', status = Complete, order = 1,
                        message = ''Prompt enhanced successfully''\<rparr>,
              PromptComparison original enhanced,
              Progress \<lparr>label = ''code-gen'', status = InProgress, order = 2,
                        message = ''Generating code...''\<rparr>,
              Progress \<lparr>label = ''code-gen'', status = Complete, order = 2,
                        message = ''Code generated successfully''\<rparr>]
         \<and> progressOrders (drop (length (dataStream w)) (dataStream w')) = [1, 1, 2, 2]
         \<and> sorted (progressOrders (drop (length (dataStream w)) (dataStream w')))"
proof -
  from orchestrate_events [OF assms] obtain original enhanced where
    d: "dataStream w' = dataStream w @
             [Progress \<lparr>label = ''enhance'', status = InProgress, order = 1,
                        message = ''Enhancing prompt...''\<rparr>,
              Progress \<lparr>label = ''enhance'', status = Complete, order = 1,
                        message = ''Prompt enhanced successfully''\<rparr>,
              PromptComparison original enhanced,
              Progress \<lparr>label = ''code-gen'', status = InProgress, order = 2,
                        message = ''Generating code...''\<rparr>,
              Progress \<lparr>label = ''code-gen'', status = Complete, order = 2,
                        message = ''Code generated successfully''\<rparr>]"
    by (elim exE)
  have o: "progressOrders (drop (length (dataStream w)) (dataStream w')) = [1, 1, 2, 2]"
    by (simp add: d)
  have "dataStream w' = dataStream w @
             [Progress \<lparr>label = ''enhance'', status = InProgress, order = 1,
                        message = ''Enhancing prompt...''\<rparr>,
              Progress \<lparr>label = ''enhance'', status = Complete, order = 1,
                        message = ''Prompt enhanced successfully''\<rparr>,
              PromptComparison original enhanced,
              Progress \<lparr>label = ''code-gen'', status = InProgress, order = 2,
                        message = ''Generating code...''\<rparr>,
              Progress \<lparr>label = ''code-gen'', status = Complete, order = 2,
                        message = ''Code generated successfully''\<rparr>]
         \<and> progressOrders (drop (length (dataStream w)) (dataStream w')) = [1, 1, 2, 2]
         \<and> sorted (progressOrders (drop (length (dataStream w)) (dataStream w')))"
    using d by (simp add: o)
  then show ?thesis
    by (intro exI)
qed

theorem progress_order_pairs_witness:
  "\<exists>res w'.
      orchestrateLangChainAgents sample_deps sample_options sample_world = (Inr res, w')
    \<and> progressOrders (drop (length (dataStream sample_world)) (dataStream w')) = [1, 1, 2, 2]
    \<and> dataStream w' =
        [Progress \<lparr>label = ''enhance'', status = InProgress, order = 1,
                   message = ''Enhancing prompt...''\<rparr>,
         Progress \<lparr>label = ''enhance'', status = Complete, order = 1,
                   message = ''Prompt enhanced successfully''\<rparr>,
         PromptComparison ''[Model: gpt-4][Provider: openai] write a fibonacci function'' ''ok'',
         Progress \<lparr>label = ''code-gen'', status = InProgress, order = 2,
                   message = ''Generating code...''\<rparr>,
         Progress \<lparr>label = ''code-gen'', status = Complete, order = 2,
                   message = ''Code generated successfully''\<rparr>]"
proof -
  obtain res w' where
    r: "orchestrateLangChainAgents sample_deps sample_options sample_world = (Inr res, w')"
    using sample_run_succeeds
    by (cases "orchestrateLangChainAgents sample_deps sample_options sample_world";
        cases "fst (orchestrateLangChainAgents sample_deps sample_options sample_world)")
       auto
  from progress_order_pairs [OF r] obtain original enhanced where
    d: "dataStream w' = dataStream sample_world @
             [Progress \<lparr>label = ''enhance'', status = InProgress, order = 1,
                        message = ''Enhancing prompt...''\<rparr>,
              Progress \<lparr>label = ''enhance'', status = Complete, order = 1,
                        message = ''Prompt enhanced successfully''\<rparr>,
              PromptComparison original enhanced,
              Progress \<lparr>label = ''code-gen'', status = InProgress, order = 2,
                        message = ''Generating code...''\<rparr>,
              Progress \<lparr>label = ''code-gen'', status = Complete, order = 2,
                        message = ''Code generated successfully''\<rparr>]"
    and o: "progressOrders (drop (length (dataStream sample_world)) (dataStream w')) = [1, 1, 2, 2]"
    by (elim exE conjE)
  from orchestrateWith_success [OF r [unfolded orchestrateLangChainAgents_def]]
  obtain er gr w1 where
    e: "LangChain_PromptEnhancerAgent_execute sample_deps sample_messages
          (initialContext sample_options) sample_world = (Inr er, w1)"
    and g: "LangChain_CodeGeneratorAgent_execute sample_deps
          (codeGeneratorMessages sample_deps sample_messages er)
          ((initialContext sample_options)\<lparr>progressCounter := result_progressCounter er\<rparr>)
          (writeData (PromptComparison (originalPromptText sample_deps sample_messages)
                        (result_output er)) w1) = (Inr gr, w')"
    by (auto simp add: agents_def sample_options_def)
  have out: "result_output er = ''ok''"
    using sample_enhancer_result [of sample_world] e by auto
  have orig: "originalPromptText sample_deps sample_messages =
                ''[Model: gpt-4][Provider: openai] write a fibonacci function''"
    by (simp add: originalPromptText_def sample_lastUser)
  have w1: "dataStream w1 =
      [Progress \<lparr>label = ''enhance'', status = InProgress, order = 1,
                 message = ''Enhancing prompt...''\<rparr>,
       Progress \<lparr>label = ''enhance'', status = Complete, order = 1,
                 message = ''Prompt enhanced successfully''\<rparr>]"
    using LangChain_enhancer_events [of sample_messages sample_deps
            "initialContext sample_options" sample_world] e
    by (simp add: sample_lastUser initialContext_def sample_world_def)
  have "dataStream w' = dataStream w1 @
      [PromptComparison ''[Model: gpt-4][Provider: openai] write a fibonacci function'' ''ok'',
       Progress \<lparr>label = ''code-gen'', status = InProgress, order = 2,
                 message = ''Generating code...''\<rparr>,
       Progress \<lparr>label = ''code-gen'', status = Complete, order = 2,
                 message = ''Code generated successfully''\<rparr>]"
    using d by (simp add: w1 sample_world_def)
       (use LangChain_generator_events [of sample_deps
            "codeGeneratorMessages sample_deps sample_messages er"
            "(initialContext sample_options)\<lparr>progressCounter := result_progressCounter er\<rparr>"
            "writeData (PromptComparison (originalPromptText sample_deps sample_messages)
                        (result_output er)) w1"] g out orig w1
        in \<open>simp add: writeData_def\<close>)
  with w1 o r have
    "orchestrateLangChainAgents sample_deps sample_options sample_world = (Inr res, w')
    \<and> progressOrders (drop (length (dataStream sample_world)) (dataStream w')) = [1, 1, 2, 2]
    \<and> dataStream w' =
        [Progress \<lparr>label = ''enhance'', status = InProgress, order = 1,
                   message = ''Enhancing prompt...''\<rparr>,
         Progress \<lparr>label = ''enhance'', status = Complete, order = 1,
                   message = ''Prompt enhanced successfully''\<rparr>,
         PromptComparison ''[Model: gpt-4][Provider: openai] write a fibonacci function'' ''ok'',
         Progress \<lparr>label = ''code-gen'', status = InProgress, order = 2,
                   message = ''Generating code...''\<rparr>,
         Progress \<lparr>label = ''code-gen'', status = Complete, order = 2,
                   message = ''Code generated successfully''\<rparr>]"
    by simp
  then show ?thesis
    by (intro exI)
qed

section \<open>Round trip of the model and provider tags\<close>

text \<open>
  C4, as the claim states it, fails: a model name with a closing bracket is cut at the
  bracket, a model name with a line break is not found at all (the default is returned), a
  model name containing a provider tag's opening text captures the provider, a provider
  name with a closing bracket is cut at the bracket, and a provider name with a line break
  is not found at all.
\<close>

theorem tag_roundtrip_counterexample:
  "extractModelInfo (enhancedUserMessage \<lparr>model = ''a]b'', providerName = ''openai''\<rparr>
      ''hi'' ''id-1'') = \<lparr>model = ''a'', providerName = ''openai''\<rparr>
   \<and> extractModelInfo (enhancedUserMessage \<lparr>model = [CHR ''a'', CHR 0x0A, CHR ''b''],
        providerName = ''openai''\<rparr> ''hi'' ''id-1'')
       = \<lparr>model = ''gpt-4o'', providerName = ''openai''\<rparr>
   \<and> extractModelInfo (enhancedUserMessage \<lparr>model = ''[Provider: x'',
        providerName = ''openai''\<rparr> ''hi'' ''id-1'')
       = \<lparr>model = ''[Provider: x'', providerName = ''x''\<rparr>
   \<and> extractModelInfo (enhancedUserMessage \<lparr>model = ''gpt-4'', providerName = ''a]b''\<rparr>
        ''hi'' ''id-1'') = \<lparr>model = ''gpt-4'', providerName = ''a''\<rparr>
   \<and> extractModelInfo (enhancedUserMessage \<lparr>model = ''gpt-4'',
        providerName = [CHR ''a'', CHR 0x0A, CHR ''b'']\<rparr> ''hi'' ''id-1'')
       = \<lparr>model = ''gpt-4'', providerName = ''OpenAI''\<rparr>"
  by (simp add: extractModelInfo_def enhancedUserMessage_def contentText_def match_here_def
        isLineTerminator_def)

text \<open>
  C4, amended. For every model name that contains no closing bracket, no line terminator
  and not the text \<open>[Provider: \<close>, and every provider name that contains no closing
  bracket and no line terminator, the message the orchestrator builds from the two tags
  and any enhanced text resolves, with either copy of \<open>extractModelInfo\<close>, to exactly that
  model and provider. An opening bracket in the model name does no harm.
\<close>

theorem tag_roundtrip:
  assumes "\<not> str_includes M ''[Provider: ''" "CHR '']'' \<notin> set M"
    "\<not> (\<exists>c \<in> set M. isLineTerminator c)"
      and "CHR '']'' \<notin> set P" "\<not> (\<exists>c \<in> set P. isLineTerminator c)"
  shows "extractModelInfo
           (enhancedUserMessage \<lparr>model = M, providerName = P\<rparr> enhancedPrompt newId)
           = \<lparr>model = M, providerName = P\<rparr>
       \<and> extractModelInfo_enhancer
           (enhancedUserMessage \<lparr>model = M, providerName = P\<rparr> enhancedPrompt newId)
           = \<lparr>model = M, providerName = P\<rparr>"
  using extract_enhancedUserMessage [OF assms] by simp

theorem tag_roundtrip_witness:
  "\<not> str_includes ''a[b'' ''[Provider: '' \<and> CHR '']'' \<notin> set ''a[b''
   \<and> \<not> (\<exists>c \<in> set ''a[b''. isLineTerminator c)
   \<and> CHR '']'' \<notin> set ''openai'' \<and> \<not> (\<exists>c \<in> set ''openai''. isLineTerminator c)
   \<and> extractModelInfo
        (enhancedUserMessage \<lparr>model = ''a[b'', providerName = ''openai''\<rparr>
           ''write [a] function]'' ''id-1'')
       = \<lparr>model = ''a[b'', providerName = ''openai''\<rparr>
   \<and> extractModelInfo_enhancer
        (enhancedUserMessage \<lparr>model = ''a[b'', providerName = ''openai''\<rparr>
           ''write [a] function]'' ''id-1'')
       = \<lparr>model = ''a[b'', providerName = ''openai''\<rparr>"
  using tag_roundtrip [of "''a[b''" "''openai''" "''write [a] function]''" "''id-1''"]
  by (simp add: isLineTerminator_def)

section \<open>API-key resolution\<close>

text \<open>
  C8. For every provider name, \<open>getApiKey\<close> is to return the first non-empty value among
  the key map's entry under the provider's display name, the request environment's entry
  under \<open><PROVIDER>_API_KEY\<close> and the process environment's entry under the same name,
  and the empty string when there is none, which the agents treat as a hard failure. The
  code does so for every provider name that is not the name of a property of
  \<open>Object.prototype\<close> (\<open>getApiKey_spec\<close>, \<open>LangChain_enhancer_result\<close>). For the provider
  name \<open>constructor\<close>, with no key anywhere, it does not: \<open>apiKeys?.[provider]\<close> reads
  the inherited property, \<open>getApiKey\<close> returns that function instead of the empty string,
  the prompt enhancer does not raise the missing-key error, and it invokes an OpenAI
  client built with that function as its key.
\<close>

theorem getApiKey_inherited_property:
  "spec_getApiKey Map.empty (initialContext (sample_options\<lparr>opt_apiKeys := Map.empty\<rparr>))
      ''constructor'' = []
   \<and> getApiKey Map.empty (initialContext (sample_options\<lparr>opt_apiKeys := Map.empty\<rparr>))
      ''constructor'' = Inherited ''constructor''
   \<and> fst (LangChain_PromptEnhancerAgent_execute sample_deps
        [\<lparr>role = ''user'', content = Text ''[Model: gpt-4][Provider: constructor] hi'',
          msg_id = Some ''m1''\<rparr>]
        (initialContext (sample_options\<lparr>opt_apiKeys := Map.empty\<rparr>)) sample_world)
       \<noteq> Inl (NoApiKeyForProvider ''constructor'')
   \<and> invocations (snd (LangChain_PromptEnhancerAgent_execute sample_deps
        [\<lparr>role = ''user'', content = Text ''[Model: gpt-4][Provider: constructor] hi'',
          msg_id = Some ''m1''\<rparr>]
        (initialContext (sample_options\<lparr>opt_apiKeys := Map.empty\<rparr>)) sample_world)) =
       [Invoke (ChatOpenAI \<lparr>field_apiKey = Inherited ''constructor'',
                            field_modelName = ''gpt-4'', field_temperature = 0.2\<rparr> None)
          [HumanMessage (format (createPromptForAgent PROMPT_ENHANCER)
             ''[Model: gpt-4][Provider: constructor] hi'')]]"
proof -
  let ?ctx = "initialContext (sample_options\<lparr>opt_apiKeys := Map.empty\<rparr>)"
  let ?msg = "\<lparr>role = ''user'', content = Text ''[Model: gpt-4][Provider: constructor] hi'',
                msg_id = Some ''m1''\<rparr>"
  have up: "toUpperCase ''constructor'' = Some ''CONSTRUCTOR''"
    by (simp add: toUpperCaseChar_def lowerLetters_def upperLetters_def)
  have low: "toLowerCase ''constructor'' = ''constructor''"
    by (simp add: toLowerCase_def toLowerCaseChar_def)
  have s: "spec_getApiKey Map.empty ?ctx ''constructor'' = []"
    by (simp add: spec_getApiKey_def spec_displayName_def spec_envKeyName_def low up
          initialContext_def sample_options_def)
  have k: "getApiKey Map.empty ?ctx ''constructor'' = Inherited ''constructor''"
    by (simp add: getApiKey_def low up initialContext_def sample_options_def
          lookupProperty_def objectPrototypeNames_def lookupName_def value_or_def
          value_or_empty_def)
  have m: "selectedModelInfo [?msg] = \<lparr>model = ''gpt-4'', providerName = ''constructor''\<rparr>"
    by (simp add: selectedModelInfo_def extractModelInfo_def contentText_def match_here_def
          isLineTerminator_def)
  have c: "createLangChainModel Map.empty ''constructor'' ''gpt-4'' (Inherited ''constructor'')
             t =
           ChatOpenAI \<lparr>field_apiKey = Inherited ''constructor'', field_modelName = ''gpt-4'',
                       field_temperature = t\<rparr> None" for t
    by (simp add: createLangChainModel_def low truthy_def or_empty_def js_or_def)
  have p: "process_env sample_deps = Map.empty"
    by (simp add: sample_deps_def)
  have l: "lastUserMessage [?msg] = Some ?msg"
    by (simp add: lastUserMessage_def)
  have r: "fst (LangChain_PromptEnhancerAgent_execute sample_deps [?msg] ?ctx sample_world)
             \<noteq> Inl (NoApiKeyForProvider ''constructor'')"
    unfolding LangChain_enhancer_result [OF l] m Let_def
    by (simp add: p k) (simp add: sample_deps_def)
  have i: "invocations (snd (LangChain_PromptEnhancerAgent_execute sample_deps [?msg] ?ctx
             sample_world)) =
       [Invoke (ChatOpenAI \<lparr>field_apiKey = Inherited ''constructor'',
                            field_modelName = ''gpt-4'', field_temperature = 0.2\<rparr> None)
          [HumanMessage (format (createPromptForAgent PROMPT_ENHANCER)
             ''[Model: gpt-4][Provider: constructor] hi'')]]"
    using m
    by (simp add: LangChain_PromptEnhancerAgent_execute_def LangChain_PromptEnhancerAgent_try_def
          l Let_def selectedModelInfo_def p k c writeData_def invoked_def contentText_def
          sample_world_def split: sum.splits)
  from s k r i show ?thesis
    by (intro conjI)
qed

section \<open>Fallback for an unrecognised provider\<close>

text \<open>
  C9. For every provider name that is none of \<open>anthropic\<close>, \<open>openai\<close>, \<open>groq\<close> (compared
  case-insensitively), \<open>createLangChainModel\<close> builds an Anthropic client with the fixed
  model \<open>claude-3-sonnet-20240229\<close> and the process-wide Anthropic key when that key is
  available, and otherwise an OpenAI client with the key it was given (and the requested
  model, or \<open>gpt-4o\<close> when that is empty), whatever that key is and whether or not an
  OpenAI key exists in the process environment: nothing about an OpenAI key is checked.
\<close>

theorem createLangChainModel_fallback:
  "toLowerCase provider \<notin> {''anthropic'', ''openai'', ''groq''} \<Longrightarrow>
     (penv ''ANTHROPIC_API_KEY'' = Some k \<and> k \<noteq> [] \<longrightarrow>
        createLangChainModel penv provider mdl apiKey t =
          ChatAnthropic \<lparr>field_apiKey = Str k, field_modelName = ''claude-3-sonnet-20240229'',
                         field_temperature = t\<rparr>)
   \<and> (\<not> truthy (penv ''ANTHROPIC_API_KEY'') \<longrightarrow>
        createLangChainModel penv provider mdl apiKey t =
          ChatOpenAI \<lparr>field_apiKey = apiKey,
                      field_modelName = (if mdl = [] then ''gpt-4o'' else mdl),
                      field_temperature = t\<rparr> None)
   \<and> createLangChainModel (penv(''OPENAI_API_KEY'' := v)) provider mdl apiKey t =
       createLangChainModel penv provider mdl apiKey t"
  by (auto simp add: createLangChainModel_def Let_def truthy_def or_empty_def js_or_def)

theorem createLangChainModel_fallback_witness:
  "toLowerCase ''Mistral'' \<notin> {''anthropic'', ''openai'', ''groq''}
   \<and> createLangChainModel [''ANTHROPIC_API_KEY'' \<mapsto> ''ak''] ''Mistral'' ''mistral-large''
        (Str ''mk'') 0 =
       ChatAnthropic \<lparr>field_apiKey = Str ''ak'', field_modelName = ''claude-3-sonnet-20240229'',
                      field_temperature = 0\<rparr>
   \<and> \<not> truthy (Map.empty ''ANTHROPIC_API_KEY'')
   \<and> createLangChainModel Map.empty ''Mistral'' ''mistral-large'' (Str []) 0 =
       ChatOpenAI \<lparr>field_apiKey = Str [], field_modelName = ''mistral-large'',
                   field_temperature = 0\<rparr> None
   \<and> createLangChainModel (Map.empty(''OPENAI_API_KEY'' := Some ''ok'')) ''Mistral''
        ''mistral-large'' (Str []) 0 =
       createLangChainModel Map.empty ''Mistral'' ''mistral-large'' (Str []) 0"
proof -
  have h: "toLowerCase ''Mistral'' \<notin> {''anthropic'', ''openai'', ''groq''}"
    by (simp add: toLowerCase_def toLowerCaseChar_def)
  show ?thesis
    using createLangChainModel_fallback [OF h, of "[''ANTHROPIC_API_KEY'' \<mapsto> ''ak'']" "''ak''"
            "''mistral-large''" "Str ''mk''" 0 None]
          createLangChainModel_fallback [OF h, of Map.empty "''ak''" "''mistral-large''"
            "Str []" 0 "Some ''ok''"]
          h
    by (simp add: truthy_def)
qed

section \<open>Estimated usage\<close>

text \<open>
  C10. For a prompt of character length \<open>p\<close> and an output of character length \<open>c\<close> the
  LangChain agents estimate \<open>promptTokens = ceil(p/4)\<close>, \<open>completionTokens = ceil(c/4)\<close> and
  \<open>totalTokens = ceil((p+c)/4)\<close>; hence
  \<open>promptTokens + completionTokens - 1 \<le> totalTokens \<le> promptTokens + completionTokens\<close>,
  and for \<open>p = c = 1\<close> the total is strictly below the sum. Whenever the model answers, the
  prompt enhancer returns this estimate for the length of its formatted prompt and of its
  trimmed output, and the code generator returns it for the length of its system message
  plus its formatted prompt and of its trimmed output; and no successful execution of
  either reports anything else.
\<close>

theorem estimated_usage_bounds:
  "promptTokens (estimatedUsage p c) = \<lceil>(of_nat p :: rat) / 4\<rceil>
   \<and> completionTokens (estimatedUsage p c) = \<lceil>(of_nat c :: rat) / 4\<rceil>
   \<and> totalTokens (estimatedUsage p c) = \<lceil>(of_nat (p + c) :: rat) / 4\<rceil>
   \<and> promptTokens (estimatedUsage p c) + completionTokens (estimatedUsage p c) - 1
        \<le> totalTokens (estimatedUsage p c)
   \<and> totalTokens (estimatedUsage p c)
        \<le> promptTokens (estimatedUsage p c) + completionTokens (estimatedUsage p c)
   \<and> totalTokens (estimatedUsage 1 1)
        < promptTokens (estimatedUsage 1 1) + completionTokens (estimatedUsage 1 1)
   \<and> (\<forall>r. fst (LangChain_PromptEnhancerAgent_execute deps messages context w) = Inr r \<longrightarrow>
        (\<exists>lastUser. lastUserMessage messages = Some lastUser
           \<and> usage r = Some (estimatedUsage
                (length (format (createPromptForAgent PROMPT_ENHANCER)
                           (contentText (content lastUser))))
                (length (result_output r)))))
   \<and> (\<forall>r. fst (LangChain_CodeGeneratorAgent_execute deps messages context w) = Inr r \<longrightarrow>
        (\<exists>lastUser filesContext. lastUserMessage messages = Some lastUser
           \<and> LangChain_filesContext deps context = Inr filesContext
           \<and> usage r = Some (estimatedUsage
                (length (codegen_systemMessage filesContext)
                 + length (format (createPromptForAgent CODE_GENERATOR)
                             (contentText (content lastUser))))
                (length (result_output r)))))
   \<and> (\<forall>lastUser response.
        lastUserMessage messages = Some lastUser
        \<and> isTruthy (getApiKey (process_env deps) context
             (providerName (selectedModelInfo messages)))
        \<and> invoke deps
             (createLangChainModel (process_env deps)
                (providerName (selectedModelInfo messages)) (model (selectedModelInfo messages))
                (getApiKey (process_env deps) context
                   (providerName (selectedModelInfo messages))) 0.2)
             [HumanMessage (format (createPromptForAgent PROMPT_ENHANCER)
                (contentText (content lastUser)))] = Inr response
        \<longrightarrow>
        fst (LangChain_PromptEnhancerAgent_execute deps messages context w) =
          Inr \<lparr>result_output = trim response,
               usage = Some (estimatedUsage
                 (length (format (createPromptForAgent PROMPT_ENHANCER)
                            (contentText (content lastUser))))
                 (length (trim response))),
               result_progressCounter = progressCounter context + 1\<rparr>)
   \<and> (\<forall>lastUser filesContext response.
        lastUserMessage messages = Some lastUser
        \<and> LangChain_filesContext deps context = Inr filesContext
        \<and> isTruthy (getApiKey (process_env deps) context
             (providerName (extractModelInfo lastUser)))
        \<and> invoke deps
             (createLangChainModel (process_env deps)
                (providerName (extractModelInfo lastUser)) (model (extractModelInfo lastUser))
                (getApiKey (process_env deps) context
                   (providerName (extractModelInfo lastUser))) 0)
             [SystemMessage (codegen_systemMessage filesContext),
              HumanMessage (format (createPromptForAgent CODE_GENERATOR)
                (contentText (content lastUser)))] = Inr response
        \<longrightarrow>
        fst (LangChain_CodeGeneratorAgent_execute deps messages context w) =
          Inr \<lparr>result_output = trim response,
               usage = Some (estimatedUsage
                 (length (codegen_systemMessage filesContext)
                  + length (format (createPromptForAgent CODE_GENERATOR)
                              (contentText (content lastUser))))
                 (length (trim response))),
               result_progressCounter = progressCounter context + 1\<rparr>)"
proof (intro conjI allI impI)
  show "promptTokens (estimatedUsage p c) = \<lceil>(of_nat p :: rat) / 4\<rceil>"
    by (simp add: estimatedUsage_def ceil_quarter_def)
  show "completionTokens (estimatedUsage p c) = \<lceil>(of_nat c :: rat) / 4\<rceil>"
    by (simp add: estimatedUsage_def ceil_quarter_def)
  show "totalTokens (estimatedUsage p c) = \<lceil>(of_nat (p + c) :: rat) / 4\<rceil>"
    by (simp add: estimatedUsage_def ceil_quarter_def)
  show "promptTokens (estimatedUsage p c) + completionTokens (estimatedUsage p c) - 1
          \<le> totalTokens (estimatedUsage p c)"
    by (simp add: estimatedUsage_def ceil_quarter_div)
  show "totalTokens (estimatedUsage p c)
          \<le> promptTokens (estimatedUsage p c) + completionTokens (estimatedUsage p c)"
    by (simp add: estimatedUsage_def ceil_quarter_div)
  show "totalTokens (estimatedUsage 1 1)
          < promptTokens (estimatedUsage 1 1) + completionTokens (estimatedUsage 1 1)"
    by (simp add: estimatedUsage_def ceil_quarter_div)
next
  fix r
  assume "fst (LangChain_PromptEnhancerAgent_execute deps messages context w) = Inr r"
  then show "\<exists>lastUser. lastUserMessage messages = Some lastUser
           \<and> usage r = Some (estimatedUsage
                (length (format (createPromptForAgent PROMPT_ENHANCER)
                           (contentText (content lastUser))))
                (length (result_output r)))"
    by (auto simp add: agent_defs Let_def split: option.splits sum.splits prod.splits if_splits)
next
  fix r
  assume "fst (LangChain_CodeGeneratorAgent_execute deps messages context w) = Inr r"
  then show "\<exists>lastUser filesContext. lastUserMessage messages = Some lastUser
           \<and> LangChain_filesContext deps context = Inr filesContext
           \<and> usage r = Some (estimatedUsage
                (length (codegen_systemMessage filesContext)
                 + length (format (createPromptForAgent CODE_GENERATOR)
                             (contentText (content lastUser))))
                (length (result_output r)))"
    by (auto simp add: agent_defs Let_def split: option.splits sum.splits prod.splits if_splits)
next
  fix lastUser response
  assume a: "lastUserMessage messages = Some lastUser
        \<and> isTruthy (getApiKey (process_env deps) context
             (providerName (selectedModelInfo messages)))
        \<and> invoke deps
             (createLangChainModel (process_env deps)
                (providerName (selectedModelInfo messages)) (model (selectedModelInfo messages))
                (getApiKey (process_env deps) context
                   (providerName (selectedModelInfo messages))) 0.2)
             [HumanMessage (format (createPromptForAgent PROMPT_ENHANCER)
                (contentText (content lastUser)))] = Inr response"
  then have l: "lastUserMessage messages = Some lastUser"
    by simp
  show "fst (LangChain_PromptEnhancerAgent_execute deps messages context w) =
          Inr \<lparr>result_output = trim response,
               usage = Some (estimatedUsage
                 (length (format (createPromptForAgent PROMPT_ENHANCER)
                            (contentText (content lastUser))))
                 (length (trim response))),
               result_progressCounter = progressCounter context + 1\<rparr>"
    unfolding LangChain_enhancer_result [OF l] Let_def using a by simp
next
  fix lastUser filesContext response
  assume a: "lastUserMessage messages = Some lastUser
        \<and> LangChain_filesContext deps context = Inr filesContext
        \<and> isTruthy (getApiKey (process_env deps) context
             (providerName (extractModelInfo lastUser)))
        \<and> invoke deps
             (createLangChainModel (process_env deps)
                (providerName (extractModelInfo lastUser)) (model (extractModelInfo lastUser))
                (getApiKey (process_env deps) context
                   (providerName (extractModelInfo lastUser))) 0)
             [SystemMessage (codegen_systemMessage filesContext),
              HumanMessage (format (createPromptForAgent CODE_GENERATOR)
                (contentText (content lastUser)))] = Inr response"
  then have l: "lastUserMessage messages = Some lastUser"
    and f: "LangChain_filesContext deps context = Inr filesContext"
    by simp_all
  show "fst (LangChain_CodeGeneratorAgent_execute deps messages context w) =
          Inr \<lparr>result_output = trim response,
               usage = Some (estimatedUsage
                 (length (codegen_systemMessage filesContext)
                  + length (format (createPromptForAgent CODE_GENERATOR)
                              (contentText (content lastUser))))
                 (length (trim response))),
               result_progressCounter = progressCounter context + 1\<rparr>"
    unfolding LangChain_generator_result [OF l f] Let_def using a by simp
qed

theorem estimated_usage_bounds_witness:
  "lastUserMessage sample_messages =
     Some \<lparr>role = ''user'',
           content = Text ''[Model: gpt-4][Provider: openai] write a fibonacci function'',
           msg_id = Some ''m2''\<rparr>
   \<and> LangChain_filesContext sample_deps (initialContext sample_options) = Inr []
   \<and> isTruthy (getApiKey (process_env sample_deps) (initialContext sample_options) ''openai'')
   \<and> invoke sample_deps
        (createLangChainModel (process_env sample_deps) ''openai'' ''gpt-4''
           (getApiKey (process_env sample_deps) (initialContext sample_options) ''openai'') 0.2)
        [HumanMessage (format (createPromptForAgent PROMPT_ENHANCER)
           ''[Model: gpt-4][Provider: openai] write a fibonacci function'')] = Inr '' ok ''
   \<and> invoke sample_deps
        (createLangChainModel (process_env sample_deps) ''openai'' ''gpt-4''
           (getApiKey (process_env sample_deps) (initialContext sample_options) ''openai'') 0)
        [SystemMessage (codegen_systemMessage []),
         HumanMessage (format (createPromptForAgent CODE_GENERATOR)
           ''[Model: gpt-4][Provider: openai] write a fibonacci function'')] = Inr '' ok ''
   \<and> trim '' ok '' = ''ok''
   \<and> fst (LangChain_PromptEnhancerAgent_execute sample_deps sample_messages
      (initialContext sample_options) sample_world) =
     Inr \<lparr>result_output = ''ok'',
          usage = Some \<lparr>completionTokens = 1, promptTokens = 285, totalTokens = 285\<rparr>,
          result_progressCounter = 1\<rparr>
   \<and> fst (LangChain_CodeGeneratorAgent_execute sample_deps sample_messages
      (initialContext sample_options) sample_world) =
     Inr \<lparr>result_output = ''ok'',
          usage = Some \<lparr>completionTokens = 1, promptTokens = 208, totalTokens = 209\<rparr>,
          result_progressCounter = 1\<rparr>
   \<and> length (format (createPromptForAgent PROMPT_ENHANCER)
        ''[Model: gpt-4][Provider: openai] write a fibonacci function'') = 1138
   \<and> length (codegen_systemMessage []) + length (format (createPromptForAgent CODE_GENERATOR)
        ''[Model: gpt-4][Provider: openai] write a fibonacci function'') = 832
   \<and> totalTokens (estimatedUsage 5 6) = 3
   \<and> promptTokens (estimatedUsage 5 6) = 2 \<and> completionTokens (estimatedUsage 5 6) = 2"
proof -
  let ?ctx = "initialContext sample_options"
  let ?text = "''[Model: gpt-4][Provider: openai] write a fibonacci function''"
  let ?user = "\<lparr>role = ''user'', content = Text ?text, msg_id = Some ''m2''\<rparr>"
  have le: "length (format (createPromptForAgent PROMPT_ENHANCER) ?text) = 1138"
    by (simp add: format_def template_PROMPT_ENHANCER_before_def
          template_PROMPT_ENHANCER_after_def)
  have lg: "length (codegen_systemMessage []) + length (format (createPromptForAgent
              CODE_GENERATOR) ?text) = 832"
    by (simp add: codegen_systemMessage_def format_def template_CODE_GENERATOR_before_def
          template_CODE_GENERATOR_after_def)
  have ue: "estimatedUsage 1138 2 =
              \<lparr>completionTokens = 1, promptTokens = 285, totalTokens = 285\<rparr>"
    by (simp add: estimatedUsage_def ceil_quarter_div)
  have ug: "estimatedUsage 832 2 =
              \<lparr>completionTokens = 1, promptTokens = 208, totalTokens = 209\<rparr>"
    by (simp add: estimatedUsage_def ceil_quarter_div)
  have k: "getApiKey (process_env sample_deps) ?ctx ''openai'' = Str ''sk-test''"
    using sample_key by (simp add: sample_deps_def)
  have m: "extractModelInfo ?user = \<lparr>model = ''gpt-4'', providerName = ''openai''\<rparr>"
    using sample_model by (simp add: selectedModelInfo_def sample_messages_def)
  have f: "LangChain_filesContext sample_deps ?ctx = Inr []"
    by (simp add: LangChain_filesContext_def initialContext_def sample_options_def)
  have i: "invoke sample_deps llm msgs = Inr '' ok ''" for llm msgs
    by (simp add: sample_deps_def)
  have c: "progressCounter ?ctx = 0"
    by (simp add: initialContext_def)
  have ce: "contentText (content ?user) = ?text"
    by (simp add: contentText_def)
  have l2: "length ''ok'' = 2"
    by simp
  note t = estimated_usage_bounds [of 5 6 sample_deps sample_messages ?ctx sample_world]
  from t have e: "fst (LangChain_PromptEnhancerAgent_execute sample_deps sample_messages ?ctx
        sample_world) =
      Inr \<lparr>result_output = trim '' ok '',
           usage = Some (estimatedUsage
             (length (format (createPromptForAgent PROMPT_ENHANCER) (contentText (content ?user))))
             (length (trim '' ok ''))),
           result_progressCounter = progressCounter ?ctx + 1\<rparr>"
    using sample_lastUser sample_model k i by simp
  from t have g: "fst (LangChain_CodeGeneratorAgent_execute sample_deps sample_messages ?ctx
        sample_world) =
      Inr \<lparr>result_output = trim '' ok '',
           usage = Some (estimatedUsage
             (length (codegen_systemMessage [])
              + length (format (createPromptForAgent CODE_GENERATOR)
                          (contentText (content ?user))))
             (length (trim '' ok ''))),
           result_progressCounter = progressCounter ?ctx + 1\<rparr>"
    using sample_lastUser f m k i by simp
  have e': "fst (LangChain_PromptEnhancerAgent_execute sample_deps sample_messages ?ctx
        sample_world) =
     Inr \<lparr>result_output = ''ok'',
          usage = Some \<lparr>completionTokens = 1, promptTokens = 285, totalTokens = 285\<rparr>,
          result_progressCounter = 1\<rparr>"
    unfolding e trim_sample c ce le l2 ue by simp
  have g': "fst (LangChain_CodeGeneratorAgent_execute sample_deps sample_messages ?ctx
        sample_world) =
     Inr \<lparr>result_output = ''ok'',
          usage = Some \<lparr>completionTokens = 1, promptTokens = 208, totalTokens = 209\<rparr>,
          result_progressCounter = 1\<rparr>"
    unfolding g trim_sample c ce lg l2 ug by simp
  have n: "totalTokens (estimatedUsage 5 6) = 3" "promptTokens (estimatedUsage 5 6) = 2"
    "completionTokens (estimatedUsage 5 6) = 2"
    by (simp_all add: estimatedUsage_def ceil_quarter_div)
  have kt: "isTruthy (getApiKey (process_env sample_deps) ?ctx ''openai'')"
    by (simp add: k)
  from sample_lastUser f kt i i trim_sample e' g' le lg n show ?thesis
    by (intro conjI)
qed

end
